theory Spec2Isabelle
  imports Main "HOL-Library.Word" "HOL-Library.Multiset"
begin

section \<open>Go values used by the provider clients (package agents)\<close>

text \<open>
  A Go \<open>error\<close> value.  \<open>External\<close> is an error produced by a library call
  (encoding/json, net/http, io), \<open>Errorf\<close> is \<open>fmt.Errorf\<close> with a plain message,
  \<open>Wrapped p e\<close> is \<open>fmt.Errorf(p + "%w", e)\<close>: the message prefix and the wrapped
  error.
\<close>

datatype error = External string | Errorf string | Wrapped string error

text \<open>\<open>time.Duration\<close> is an int64 count of nanoseconds; arithmetic on it wraps.\<close>

type_synonym Duration = "64 word"

definition Second :: Duration where
  "Second = 1000000000"

text \<open>\<open>http.Client\<close>: only the field the repository sets.\<close>

record http_Client =
  Timeout :: Duration

text \<open>An opaque \<open>context.Context\<close> value.\<close>

datatype Context = Background | Derived nat

text \<open>
  The value passed to \<open>json.Marshal\<close>: Go maps with string keys, slices, strings and
  integers.  A map is kept as a key/value list and read with \<open>field\<close>.
\<close>

datatype json = JString string | JInt int | JArray "json list" | JObject "(string \<times> json) list"

fun field :: "json \<Rightarrow> string \<Rightarrow> json option" where
  "field (JObject kvs) k = map_of kvs k"
| "field _ k = None"

record http_Request =
  Method :: string
  URL :: string
  Header :: "string \<rightharpoonup> string"
  Body :: string
  Ctx :: Context

text \<open>
  \<open>http.Response\<close>: the status code and what \<open>io.ReadAll(resp.Body)\<close> yields
  (the bytes or a read error).
\<close>

record http_Response =
  StatusCode :: nat
  ReadAll_Body :: "error + string"

text \<open>
  The response structs the clients decode into.  \<open>Error\<close> is a pointer in Go:
  \<open>None\<close> is nil.
\<close>

record api_error =
  error_Message :: string

record message =
  Content :: string

record choice =
  Message :: message

record chat_response =
  Choices :: "choice list"
  Error :: "api_error option"

record part =
  Text :: string

record gemini_content =
  Parts :: "part list"

record candidate =
  candidate_Content :: gemini_content

record gemini_response =
  Candidates :: "candidate list"
  gemini_Error :: "api_error option"

record content_block =
  block_Text :: string

record anthropic_response =
  anthropic_Content :: "content_block list"
  anthropic_Error :: "api_error option"

text \<open>
  The library calls a \<open>Query\<close> makes, as functions of their arguments:
  \<open>json.Marshal\<close>, \<open>http.NewRequestWithContext\<close> (the error it returns, if any),
  \<open>httpClient.Do\<close>, and \<open>json.Unmarshal\<close> into each of the three response structs.
\<close>

record world =
  Marshal :: "json \<Rightarrow> error + string"
  NewRequestWithContext :: "Context \<Rightarrow> string \<Rightarrow> string \<Rightarrow> string \<Rightarrow> error option"
  Do :: "http_Client \<Rightarrow> http_Request \<Rightarrow> error + http_Response"
  Unmarshal_chat :: "string \<Rightarrow> error + chat_response"
  Unmarshal_gemini :: "string \<Rightarrow> error + gemini_response"
  Unmarshal_anthropic :: "string \<Rightarrow> error + anthropic_response"

text \<open>
  What a call of \<open>Query\<close> does: it returns the pair \<open>(string, error)\<close>, or it
  panics (an index out of range, a nil pointer).
\<close>

datatype go_result = Panics | Returns string "error option"

text \<open>\<open>xs[i]\<close> on a slice: \<open>None\<close> is the runtime panic.\<close>

definition index :: "'a list \<Rightarrow> nat \<Rightarrow> 'a option" where
  "index xs i = (if i < length xs then Some (xs ! i) else None)"

definition Header_Set :: "string \<Rightarrow> string \<Rightarrow> http_Request \<Rightarrow> http_Request" where
  "Header_Set k v req = req\<lparr>Header := (Header req)(k \<mapsto> v)\<rparr>"

definition new_request :: "Context \<Rightarrow> string \<Rightarrow> string \<Rightarrow> string \<Rightarrow> http_Request" where
  "new_request c m u b = \<lparr>Method = m, URL = u, Header = Map.empty, Body = b, Ctx = c\<rparr>"

section \<open>The clients and their constructors\<close>

text \<open>The five fields every client struct has.  \<open>httpClient\<close> is a \<open>*http.Client\<close>,
  stored as it is given: \<open>None\<close> is nil.\<close>

record client =
  httpClient :: "http_Client option"
  ctx :: Context
  apiKey :: string
  model :: string
  baseURL :: string

text \<open>The interface \<open>APIClient\<close>: one constructor per implementing struct.\<close>

datatype APIClient =
    is_OpenAIClient: OpenAIClient client
  | is_GeminiClient: GeminiClient client
  | is_AnthropicClient: AnthropicClient client
  | is_MistralClient: MistralClient client
  | is_OpenRouterClient: OpenRouterClient client
  | is_OpenAICompatibleClient: OpenAICompatibleClient client

definition NewOpenAIClient ::
  "Context \<Rightarrow> string \<Rightarrow> string \<Rightarrow> bool \<Rightarrow> string \<Rightarrow> http_Client option \<Rightarrow> client" where
  "NewOpenAIClient c key m useCustomBaseURL url hc =
     \<lparr>httpClient = hc, ctx = c, apiKey = key, model = m,
      baseURL = (if useCustomBaseURL \<and> url \<noteq> '''' then url
                 else ''https://api.openai.com/v1/chat/completions'')\<rparr>"

definition NewGeminiClient ::
  "Context \<Rightarrow> string \<Rightarrow> string \<Rightarrow> bool \<Rightarrow> string \<Rightarrow> http_Client option \<Rightarrow> client" where
  "NewGeminiClient c key m useCustomBaseURL url hc =
     \<lparr>httpClient = hc, ctx = c, apiKey = key, model = m,
      baseURL = (if useCustomBaseURL \<and> url \<noteq> '''' then url
                 else ''https://generativelanguage.googleapis.com/v1/models/'' @ m
                        @ '':generateContent'')\<rparr>"

definition NewAnthropicClient ::
  "Context \<Rightarrow> string \<Rightarrow> string \<Rightarrow> bool \<Rightarrow> string \<Rightarrow> http_Client option \<Rightarrow> client" where
  "NewAnthropicClient c key m useCustomBaseURL url hc =
     \<lparr>httpClient = hc, ctx = c, apiKey = key, model = m,
      baseURL = (if useCustomBaseURL \<and> url \<noteq> '''' then url
                 else ''https://api.anthropic.com/v1/messages'')\<rparr>"

definition NewMistralClient ::
  "Context \<Rightarrow> string \<Rightarrow> string \<Rightarrow> bool \<Rightarrow> string \<Rightarrow> http_Client option \<Rightarrow> client" where
  "NewMistralClient c key m useCustomBaseURL url hc =
     \<lparr>httpClient = hc, ctx = c, apiKey = key, model = m,
      baseURL = (if useCustomBaseURL \<and> url \<noteq> '''' then url
                 else ''https://api.mistral.ai/v1/chat/completions'')\<rparr>"

definition NewOpenRouterClient ::
  "Context \<Rightarrow> string \<Rightarrow> string \<Rightarrow> bool \<Rightarrow> string \<Rightarrow> http_Client option \<Rightarrow> client" where
  "NewOpenRouterClient c key m useCustomBaseURL url hc =
     \<lparr>httpClient = hc, ctx = c, apiKey = key, model = m,
      baseURL = (if useCustomBaseURL \<and> url \<noteq> '''' then url
                 else ''https://openrouter.ai/api/v1/chat/completions'')\<rparr>"

definition NewOpenAICompatibleClient ::
  "Context \<Rightarrow> string \<Rightarrow> string \<Rightarrow> bool \<Rightarrow> string \<Rightarrow> http_Client option \<Rightarrow> client" where
  "NewOpenAICompatibleClient c key m useCustomBaseURL url hc =
     \<lparr>httpClient = hc, ctx = c, apiKey = key, model = m,
      baseURL = (if \<not> useCustomBaseURL \<or> url = ''''
                 then ''https://api.openai.com/v1/chat/completions'' else url)\<rparr>"

text \<open>
  \<open>NewAPIClient\<close> returns the Go pair \<open>(APIClient, error)\<close>; \<open>None\<close> is nil in
  either component.  The \<open>*http.Client\<close> argument is a pointer: \<open>None\<close> is nil.
\<close>

definition NewAPIClient ::
  "Context \<Rightarrow> string \<Rightarrow> string \<Rightarrow> string \<Rightarrow> bool \<Rightarrow> string \<Rightarrow> http_Client option
     \<Rightarrow> APIClient option \<times> error option" where
  "NewAPIClient c provider key m useCustomBaseURL url hcp =
     (let hc = (case hcp of None \<Rightarrow> Some \<lparr>Timeout = Second * 120\<rparr> | Some h \<Rightarrow> Some h) in
      if provider = ''gemini'' then
        (Some (GeminiClient (NewGeminiClient c key m useCustomBaseURL url hc)), None)
      else if provider = ''openai'' \<or> provider = '''' then
        (Some (OpenAIClient (NewOpenAIClient c key m useCustomBaseURL url hc)), None)
      else if provider = ''anthropic'' then
        (Some (AnthropicClient (NewAnthropicClient c key m useCustomBaseURL url hc)), None)
      else if provider = ''mistral'' then
        (Some (MistralClient (NewMistralClient c key m useCustomBaseURL url hc)), None)
      else if provider = ''openrouter'' then
        (Some (OpenRouterClient (NewOpenRouterClient c key m useCustomBaseURL url hc)), None)
      else
        (Some (OpenAICompatibleClient
                 (NewOpenAICompatibleClient c key m useCustomBaseURL url hc)), None))"


section \<open>The request payloads\<close>

text \<open>
  Each \<open>Query\<close> first builds the value it marshals.  \<open>OpenAIClient\<close> and
  \<open>OpenAICompatibleClient\<close> replace an empty system prompt by a fixed sentence.
\<close>

definition OpenAIClient_payload :: "client \<Rightarrow> string \<Rightarrow> string \<Rightarrow> json" where
  "OpenAIClient_payload c systemPrompt prompt =
     (let systemPrompt = (if systemPrompt = '''' then ''You are a helpful assistant.''
                          else systemPrompt) in
      JObject [(''model'', JString (model c)),
               (''messages'', JArray
                  [JObject [(''role'', JString ''system''), (''content'', JString systemPrompt)],
                   JObject [(''role'', JString ''user''), (''content'', JString prompt)]])])"

text \<open>\<open>GeminiClient\<close> sends one text: the prompt, behind the system prompt and a
  blank line when there is a system prompt.\<close>

definition GeminiClient_fullPrompt :: "string \<Rightarrow> string \<Rightarrow> string" where
  "GeminiClient_fullPrompt systemPrompt prompt =
     (if systemPrompt \<noteq> '''' then systemPrompt @ [CHR 0x0A, CHR 0x0A] @ prompt else prompt)"

definition GeminiClient_payload :: "client \<Rightarrow> string \<Rightarrow> string \<Rightarrow> json" where
  "GeminiClient_payload c systemPrompt prompt =
     JObject [(''contents'', JArray
        [JObject [(''parts'', JArray
           [JObject [(''text'', JString (GeminiClient_fullPrompt systemPrompt prompt))]])]])]"

text \<open>\<open>AnthropicClient\<close> adds the key \<open>system\<close> to the map only for a non-empty
  system prompt.\<close>

definition AnthropicClient_payload :: "client \<Rightarrow> string \<Rightarrow> string \<Rightarrow> json" where
  "AnthropicClient_payload c systemPrompt prompt =
     (let payload = [(''model'', JString (model c)),
                     (''messages'', JArray
                        [JObject [(''role'', JString ''user''), (''content'', JString prompt)]]),
                     (''max_tokens'', JInt 4000)] in
      if systemPrompt \<noteq> '''' then JObject (payload @ [(''system'', JString systemPrompt)])
      else JObject payload)"

text \<open>\<open>MistralClient\<close> and \<open>OpenRouterClient\<close> put a system message in front of the
  user message only for a non-empty system prompt.\<close>

definition MistralClient_payload :: "client \<Rightarrow> string \<Rightarrow> string \<Rightarrow> json" where
  "MistralClient_payload c systemPrompt prompt =
     (let messages = [JObject [(''role'', JString ''user''), (''content'', JString prompt)]];
          messages = (if systemPrompt \<noteq> '''' then
                        [JObject [(''role'', JString ''system''),
                                  (''content'', JString systemPrompt)]] @ messages
                      else messages) in
      JObject [(''model'', JString (model c)), (''messages'', JArray messages)])"

definition OpenRouterClient_payload :: "client \<Rightarrow> string \<Rightarrow> string \<Rightarrow> json" where
  "OpenRouterClient_payload c systemPrompt prompt =
     (let messages = [JObject [(''role'', JString ''user''), (''content'', JString prompt)]];
          messages = (if systemPrompt \<noteq> '''' then
                        [JObject [(''role'', JString ''system''),
                                  (''content'', JString systemPrompt)]] @ messages
                      else messages) in
      JObject [(''model'', JString (model c)), (''messages'', JArray messages)])"

definition OpenAICompatibleClient_payload :: "client \<Rightarrow> string \<Rightarrow> string \<Rightarrow> json" where
  "OpenAICompatibleClient_payload c systemPrompt prompt =
     (let systemPrompt = (if systemPrompt = '''' then ''You are a helpful assistant.''
                          else systemPrompt) in
      JObject [(''model'', JString (model c)),
               (''messages'', JArray
                  [JObject [(''role'', JString ''system''), (''content'', JString systemPrompt)],
                   JObject [(''role'', JString ''user''), (''content'', JString prompt)]])])"

section \<open>Query\<close>

text \<open>
  Every \<open>Query\<close> marshals its payload, creates a POST request, sets its headers, sends
  it, reads the body, decodes it and inspects the decoded struct.  Each early
  \<open>return "", err\<close> of the source is a branch; so is the index expression at the end,
  and so is the call \<open>c.httpClient.Do(req)\<close>, which panics on a nil client.
\<close>

definition OpenAIClient_Query :: "client \<Rightarrow> world \<Rightarrow> string \<Rightarrow> string \<Rightarrow> go_result" where
  "OpenAIClient_Query c w systemPrompt prompt =
     (case Marshal w (OpenAIClient_payload c systemPrompt prompt) of
        Inl err \<Rightarrow> Returns '''' (Some err)
      | Inr bs \<Rightarrow>
         (case NewRequestWithContext w (ctx c) ''POST'' (baseURL c) bs of
            Some err \<Rightarrow> Returns '''' (Some (Wrapped ''error creating request: '' err))
          | None \<Rightarrow>
           let req = Header_Set ''Authorization'' (''Bearer '' @ apiKey c)
                     (Header_Set ''Content-Type'' (''application/json'')
                     (new_request (ctx c) ''POST'' (baseURL c) bs)) in
           (case httpClient c of
              None \<Rightarrow> Panics
            | Some hc \<Rightarrow>
            case Do w hc req of
              Inl err \<Rightarrow> Returns '''' (Some (Wrapped ''error sending request: '' err))
            | Inr resp \<Rightarrow>
               (case ReadAll_Body resp of
                  Inl err \<Rightarrow> Returns '''' (Some (Wrapped ''error reading response: '' err))
                | Inr body \<Rightarrow>
                   (case Unmarshal_chat w body of
                      Inl err \<Rightarrow>
                        Returns '''' (Some (Wrapped ''error unmarshaling response: '' err))
                    | Inr response \<Rightarrow>
                       (case Error response of
                          Some e \<Rightarrow> Returns '''' (Some (Errorf (''API error: '' @ error_Message e)))
                        | None \<Rightarrow>
                           if length (Choices response) = 0 then
                             Returns '''' (Some (Errorf ''no choices returned from API''))
                           else
                             (case index (Choices response) 0 of
                                None \<Rightarrow> Panics
                              | Some ch \<Rightarrow> Returns (Content (Message ch)) None)))))))"

text \<open>\<open>GeminiClient\<close> appends the API key to the URL as a query parameter.\<close>

definition GeminiClient_url :: "client \<Rightarrow> string" where
  "GeminiClient_url c =
     (if \<not> (CHR ''?'' \<in> set (baseURL c)) then baseURL c @ ''?key='' @ apiKey c
      else baseURL c @ ''&key='' @ apiKey c)"

definition GeminiClient_Query :: "client \<Rightarrow> world \<Rightarrow> string \<Rightarrow> string \<Rightarrow> go_result" where
  "GeminiClient_Query c w systemPrompt prompt =
     (case Marshal w (GeminiClient_payload c systemPrompt prompt) of
        Inl err \<Rightarrow> Returns '''' (Some err)
      | Inr bs \<Rightarrow>
         let url = GeminiClient_url c in
         (case NewRequestWithContext w (ctx c) ''POST'' url bs of
            Some err \<Rightarrow> Returns '''' (Some (Wrapped ''error creating request: '' err))
          | None \<Rightarrow>
           let req = Header_Set ''Content-Type'' (''application/json'')
                     (new_request (ctx c) ''POST'' url bs) in
           (case httpClient c of
              None \<Rightarrow> Panics
            | Some hc \<Rightarrow>
            case Do w hc req of
              Inl err \<Rightarrow> Returns '''' (Some (Wrapped ''error sending request: '' err))
            | Inr resp \<Rightarrow>
               (case ReadAll_Body resp of
                  Inl err \<Rightarrow> Returns '''' (Some (Wrapped ''error reading response: '' err))
                | Inr body \<Rightarrow>
                   (case Unmarshal_gemini w body of
                      Inl err \<Rightarrow>
                        Returns '''' (Some (Wrapped ''error unmarshaling response: '' err))
                    | Inr response \<Rightarrow>
                       (case gemini_Error response of
                          Some e \<Rightarrow> Returns '''' (Some (Errorf (''API error: '' @ error_Message e)))
                        | None \<Rightarrow>
                           if length (Candidates response) = 0 then
                             Returns '''' (Some (Errorf ''no content returned from API''))
                           else
                             (case index (Candidates response) 0 of
                                None \<Rightarrow> Panics
                              | Some cand \<Rightarrow>
                                 if length (Parts (candidate_Content cand)) = 0 then
                                   Returns '''' (Some (Errorf ''no content returned from API''))
                                 else
                                   (case index (Parts (candidate_Content cand)) 0 of
                                      None \<Rightarrow> Panics
                                    | Some p \<Rightarrow> Returns (Text p) None))))))))"

definition AnthropicClient_Query :: "client \<Rightarrow> world \<Rightarrow> string \<Rightarrow> string \<Rightarrow> go_result" where
  "AnthropicClient_Query c w systemPrompt prompt =
     (case Marshal w (AnthropicClient_payload c systemPrompt prompt) of
        Inl err \<Rightarrow> Returns '''' (Some err)
      | Inr bs \<Rightarrow>
         (case NewRequestWithContext w (ctx c) ''POST'' (baseURL c) bs of
            Some err \<Rightarrow> Returns '''' (Some (Wrapped ''error creating request: '' err))
          | None \<Rightarrow>
           let req = Header_Set ''anthropic-version'' (''2023-06-01'')
                     (Header_Set ''X-API-Key'' (apiKey c)
                     (Header_Set ''Content-Type'' (''application/json'')
                     (new_request (ctx c) ''POST'' (baseURL c) bs))) in
           (case httpClient c of
              None \<Rightarrow> Panics
            | Some hc \<Rightarrow>
            case Do w hc req of
              Inl err \<Rightarrow> Returns '''' (Some (Wrapped ''error sending request: '' err))
            | Inr resp \<Rightarrow>
               (case ReadAll_Body resp of
                  Inl err \<Rightarrow> Returns '''' (Some (Wrapped ''error reading response: '' err))
                | Inr body \<Rightarrow>
                   (case Unmarshal_anthropic w body of
                      Inl err \<Rightarrow>
                        Returns '''' (Some (Wrapped ''error unmarshaling response: '' err))
                    | Inr response \<Rightarrow>
                       (case anthropic_Error response of
                          Some e \<Rightarrow> Returns '''' (Some (Errorf (''API error: '' @ error_Message e)))
                        | None \<Rightarrow>
                           if length (anthropic_Content response) = 0 then
                             Returns '''' (Some (Errorf ''no content returned from API''))
                           else
                             (case index (anthropic_Content response) 0 of
                                None \<Rightarrow> Panics
                              | Some b \<Rightarrow> Returns (block_Text b) None)))))))"

definition MistralClient_Query :: "client \<Rightarrow> world \<Rightarrow> string \<Rightarrow> string \<Rightarrow> go_result" where
  "MistralClient_Query c w systemPrompt prompt =
     (case Marshal w (MistralClient_payload c systemPrompt prompt) of
        Inl err \<Rightarrow> Returns '''' (Some err)
      | Inr bs \<Rightarrow>
         (case NewRequestWithContext w (ctx c) ''POST'' (baseURL c) bs of
            Some err \<Rightarrow> Returns '''' (Some (Wrapped ''error creating request: '' err))
          | None \<Rightarrow>
           let req = Header_Set ''Authorization'' (''Bearer '' @ apiKey c)
                     (Header_Set ''Content-Type'' (''application/json'')
                     (new_request (ctx c) ''POST'' (baseURL c) bs)) in
           (case httpClient c of
              None \<Rightarrow> Panics
            | Some hc \<Rightarrow>
            case Do w hc req of
              Inl err \<Rightarrow> Returns '''' (Some (Wrapped ''error sending request: '' err))
            | Inr resp \<Rightarrow>
               (case ReadAll_Body resp of
                  Inl err \<Rightarrow> Returns '''' (Some (Wrapped ''error reading response: '' err))
                | Inr body \<Rightarrow>
                   (case Unmarshal_chat w body of
                      Inl err \<Rightarrow>
                        Returns '''' (Some (Wrapped ''error unmarshaling response: '' err))
                    | Inr response \<Rightarrow>
                       (case Error response of
                          Some e \<Rightarrow> Returns '''' (Some (Errorf (''API error: '' @ error_Message e)))
                        | None \<Rightarrow>
                           if length (Choices response) = 0 then
                             Returns '''' (Some (Errorf ''no choices returned from API''))
                           else
                             (case index (Choices response) 0 of
                                None \<Rightarrow> Panics
                              | Some ch \<Rightarrow> Returns (Content (Message ch)) None)))))))"

definition OpenRouterClient_Query :: "client \<Rightarrow> world \<Rightarrow> string \<Rightarrow> string \<Rightarrow> go_result" where
  "OpenRouterClient_Query c w systemPrompt prompt =
     (case Marshal w (OpenRouterClient_payload c systemPrompt prompt) of
        Inl err \<Rightarrow> Returns '''' (Some err)
      | Inr bs \<Rightarrow>
         (case NewRequestWithContext w (ctx c) ''POST'' (baseURL c) bs of
            Some err \<Rightarrow> Returns '''' (Some (Wrapped ''error creating request: '' err))
          | None \<Rightarrow>
           let req = Header_Set ''X-Title'' (''Maker AI'')
                     (Header_Set ''HTTP-Referer'' (''https://maker.ai'')
                     (Header_Set ''Authorization'' (''Bearer '' @ apiKey c)
                     (Header_Set ''Content-Type'' (''application/json'')
                     (new_request (ctx c) ''POST'' (baseURL c) bs)))) in
           (case httpClient c of
              None \<Rightarrow> Panics
            | Some hc \<Rightarrow>
            case Do w hc req of
              Inl err \<Rightarrow> Returns '''' (Some (Wrapped ''error sending request: '' err))
            | Inr resp \<Rightarrow>
               (case ReadAll_Body resp of
                  Inl err \<Rightarrow> Returns '''' (Some (Wrapped ''error reading response: '' err))
                | Inr body \<Rightarrow>
                   (case Unmarshal_chat w body of
                      Inl err \<Rightarrow>
                        Returns '''' (Some (Wrapped ''error unmarshaling response: '' err))
                    | Inr response \<Rightarrow>
                       (case Error response of
                          Some e \<Rightarrow> Returns '''' (Some (Errorf (''API error: '' @ error_Message e)))
                        | None \<Rightarrow>
                           if length (Choices response) = 0 then
                             Returns '''' (Some (Errorf ''no choices returned from API''))
                           else
                             (case index (Choices response) 0 of
                                None \<Rightarrow> Panics
                              | Some ch \<Rightarrow> Returns (Content (Message ch)) None)))))))"

definition OpenAICompatibleClient_Query :: "client \<Rightarrow> world \<Rightarrow> string \<Rightarrow> string \<Rightarrow> go_result" where
  "OpenAICompatibleClient_Query c w systemPrompt prompt =
     (case Marshal w (OpenAICompatibleClient_payload c systemPrompt prompt) of
        Inl err \<Rightarrow> Returns '''' (Some err)
      | Inr bs \<Rightarrow>
         (case NewRequestWithContext w (ctx c) ''POST'' (baseURL c) bs of
            Some err \<Rightarrow> Returns '''' (Some (Wrapped ''error creating request: '' err))
          | None \<Rightarrow>
           let req = Header_Set ''Authorization'' (''Bearer '' @ apiKey c)
                     (Header_Set ''Content-Type'' (''application/json'')
                     (new_request (ctx c) ''POST'' (baseURL c) bs)) in
           (case httpClient c of
              None \<Rightarrow> Panics
            | Some hc \<Rightarrow>
            case Do w hc req of
              Inl err \<Rightarrow> Returns '''' (Some (Wrapped ''error sending request: '' err))
            | Inr resp \<Rightarrow>
               (case ReadAll_Body resp of
                  Inl err \<Rightarrow> Returns '''' (Some (Wrapped ''error reading response: '' err))
                | Inr body \<Rightarrow>
                   (case Unmarshal_chat w body of
                      Inl err \<Rightarrow>
                        Returns '''' (Some (Wrapped ''error unmarshaling response: '' err))
                    | Inr response \<Rightarrow>
                       (case Error response of
                          Some e \<Rightarrow> Returns '''' (Some (Errorf (''API error: '' @ error_Message e)))
                        | None \<Rightarrow>
                           if length (Choices response) = 0 then
                             Returns '''' (Some (Errorf ''no choices returned from API''))
                           else
                             (case index (Choices response) 0 of
                                None \<Rightarrow> Panics
                              | Some ch \<Rightarrow> Returns (Content (Message ch)) None)))))))"

text \<open>A call through the interface dispatches on the implementing struct.\<close>

fun Query :: "APIClient \<Rightarrow> world \<Rightarrow> string \<Rightarrow> string \<Rightarrow> go_result" where
  "Query (OpenAIClient c) w systemPrompt prompt = OpenAIClient_Query c w systemPrompt prompt"
| "Query (GeminiClient c) w systemPrompt prompt = GeminiClient_Query c w systemPrompt prompt"
| "Query (AnthropicClient c) w systemPrompt prompt = AnthropicClient_Query c w systemPrompt prompt"
| "Query (MistralClient c) w systemPrompt prompt = MistralClient_Query c w systemPrompt prompt"
| "Query (OpenRouterClient c) w systemPrompt prompt = OpenRouterClient_Query c w systemPrompt prompt"
| "Query (OpenAICompatibleClient c) w systemPrompt prompt =
     OpenAICompatibleClient_Query c w systemPrompt prompt"

text \<open>The struct behind an interface value.\<close>

fun client_of :: "APIClient \<Rightarrow> client" where
  "client_of (OpenAIClient c) = c"
| "client_of (GeminiClient c) = c"
| "client_of (AnthropicClient c) = c"
| "client_of (MistralClient c) = c"
| "client_of (OpenRouterClient c) = c"
| "client_of (OpenAICompatibleClient c) = c"

text \<open>
  What \<open>Query\<close> of a client hands to the library: the value it marshals (built at the
  head of each \<open>Query\<close>), and the request it sends for the marshalled bytes \<open>bs\<close>:
  a POST to the client's URL with the headers each \<open>Query\<close> sets, in its order.
\<close>

fun payload_of :: "APIClient \<Rightarrow> string \<Rightarrow> string \<Rightarrow> json" where
  "payload_of (OpenAIClient c) systemPrompt prompt = OpenAIClient_payload c systemPrompt prompt"
| "payload_of (GeminiClient c) systemPrompt prompt = GeminiClient_payload c systemPrompt prompt"
| "payload_of (AnthropicClient c) systemPrompt prompt =
     AnthropicClient_payload c systemPrompt prompt"
| "payload_of (MistralClient c) systemPrompt prompt = MistralClient_payload c systemPrompt prompt"
| "payload_of (OpenRouterClient c) systemPrompt prompt =
     OpenRouterClient_payload c systemPrompt prompt"
| "payload_of (OpenAICompatibleClient c) systemPrompt prompt =
     OpenAICompatibleClient_payload c systemPrompt prompt"

fun request_of :: "APIClient \<Rightarrow> string \<Rightarrow> http_Request" where
  "request_of (OpenAIClient c) bs =
     Header_Set ''Authorization'' (''Bearer '' @ apiKey c)
       (Header_Set ''Content-Type'' ''application/json''
         (new_request (ctx c) ''POST'' (baseURL c) bs))"
| "request_of (GeminiClient c) bs =
     Header_Set ''Content-Type'' ''application/json''
       (new_request (ctx c) ''POST'' (GeminiClient_url c) bs)"
| "request_of (AnthropicClient c) bs =
     Header_Set ''anthropic-version'' ''2023-06-01''
       (Header_Set ''X-API-Key'' (apiKey c)
         (Header_Set ''Content-Type'' ''application/json''
           (new_request (ctx c) ''POST'' (baseURL c) bs)))"
| "request_of (MistralClient c) bs =
     Header_Set ''Authorization'' (''Bearer '' @ apiKey c)
       (Header_Set ''Content-Type'' ''application/json''
         (new_request (ctx c) ''POST'' (baseURL c) bs))"
| "request_of (OpenRouterClient c) bs =
     Header_Set ''X-Title'' ''Maker AI''
       (Header_Set ''HTTP-Referer'' ''https://maker.ai''
         (Header_Set ''Authorization'' (''Bearer '' @ apiKey c)
           (Header_Set ''Content-Type'' ''application/json''
             (new_request (ctx c) ''POST'' (baseURL c) bs))))"
| "request_of (OpenAICompatibleClient c) bs =
     Header_Set ''Authorization'' (''Bearer '' @ apiKey c)
       (Header_Set ''Content-Type'' ''application/json''
         (new_request (ctx c) ''POST'' (baseURL c) bs))"

text \<open>
  The error of a result, and the time limit of an \<open>http.Client\<close> as net/http reads the
  field: a request gets a deadline only for a positive \<open>Timeout\<close> (``A Timeout of zero
  means no timeout''; \<open>Client.deadline\<close> tests \<open>c.Timeout > 0\<close>).
\<close>

fun error_of :: "go_result \<Rightarrow> error option" where
  "error_of Panics = None"
| "error_of (Returns t e) = e"

definition deadline :: "http_Client \<Rightarrow> int option" where
  "deadline hc = (if 0 < sint (Timeout hc) then Some (sint (Timeout hc)) else None)"

section \<open>The maker command (package main)\<close>

text \<open>
  The command line as \<open>flag.Parse\<close> leaves it: the value of each flag that was given
  (\<open>None\<close>: the default of its declaration applies) and the positional words
  \<open>flag.Args()\<close>.  Go's \<open>int\<close> is read as an integer; \<open>flag.Parse\<close> accepts only
  values that fit.
\<close>

record cmdline =
  flag_openai_key :: "string option"
  flag_output_dir :: "string option"
  flag_base_package :: "string option"
  flag_worker_count :: "int option"
  flag_template :: "string option"
  flag_language :: "string option"
  flag_model :: "string option"
  flag_timeout :: "int option"
  flag_list_templates :: "bool option"
  flag_list_languages :: "bool option"
  Args :: "string list"

definition flag_value :: "'a \<Rightarrow> 'a option \<Rightarrow> 'a" where
  "flag_value dflt given = (case given of None \<Rightarrow> dflt | Some v \<Rightarrow> v)"

text \<open>
  What \<open>main\<close> hands to package agents: the arguments of \<open>agents.NewOpenAI\<close> (key,
  model, HTTP client) and of \<open>agents.NewAgent\<close>.
\<close>

record agent_args =
  client_key :: string
  client_model :: string
  client_http :: http_Client
  outputDir :: string
  basePackage :: string
  templateName :: string
  language :: string
  workerCount :: int

record template_info =
  Name :: string
  Description :: string
  Language :: string

text \<open>
  Package agents is called, not defined, by \<open>main\<close>: what its functions return is an
  input of the model.
\<close>

record agents =
  NewAgent :: "agent_args \<Rightarrow> error option"
  ListTemplates :: "agent_args \<Rightarrow> template_info list"
  ListLanguages :: "agent_args \<Rightarrow> string list"
  GenerateCode :: "agent_args \<Rightarrow> string \<Rightarrow> error option"

datatype effect =
    Println string
  | Printf string
  | Log string
  | Call_Start
  | Call_GenerateCode string
  | Call_Stop
  | Sleep Duration

fun Error_text :: "error \<Rightarrow> string" where
  "Error_text (External s) = s"
| "Error_text (Errorf s) = s"
| "Error_text (Wrapped p e) = p @ Error_text e"

fun Join :: "string list \<Rightarrow> string \<Rightarrow> string" where
  "Join [] sep = ''''"
| "Join [x] sep = x"
| "Join (x # xs) sep = x @ sep @ Join xs sep"

definition maker_agent_args :: "cmdline \<Rightarrow> string \<Rightarrow> agent_args" where
  "maker_agent_args cl openAPIKey =
     \<lparr>client_key = openAPIKey,
      client_model = flag_value ''gpt-4o-mini'' (flag_model cl),
      client_http = \<lparr>Timeout = word_of_int (flag_value 120 (flag_timeout cl)) * Second\<rparr>,
      outputDir = flag_value ''./output'' (flag_output_dir cl),
      basePackage = flag_value ''github.com/user/app'' (flag_base_package cl),
      templateName = flag_value ''default'' (flag_template cl),
      language = flag_value ''go'' (flag_language cl),
      workerCount = flag_value 4 (flag_worker_count cl)\<rparr>"

text \<open>
  \<open>main\<close> of the maker command: the effects it performs, in order, and the exit code
  of the process (\<open>os.Exit(1)\<close> and \<open>log.Fatal\<close> give 1, returning from \<open>main\<close> gives 0).
  The second argument is the value of the environment variable \<open>OPENAI_API_KEY\<close>;
  \<open>maker_openAPIKey\<close> is \<open>*openAPIKey\<close> after the first \<open>if\<close> has read it.
\<close>

definition maker_openAPIKey :: "cmdline \<Rightarrow> string \<Rightarrow> string" where
  "maker_openAPIKey cl getenv_OPENAI_API_KEY =
     (let openAPIKey = flag_value '''' (flag_openai_key cl) in
      if openAPIKey = '''' then getenv_OPENAI_API_KEY else openAPIKey)"

definition maker_main :: "cmdline \<Rightarrow> string \<Rightarrow> agents \<Rightarrow> effect list \<times> nat" where
  "maker_main cl getenv_OPENAI_API_KEY ag =
     (let openAPIKey = maker_openAPIKey cl getenv_OPENAI_API_KEY in
      if openAPIKey = '''' then
        ([Println (''Please provide OpenAI API key using -openai-key flag or set ''
                   @ ''OPENAI_API_KEY environment variable.'')], 1)
      else
        let a = maker_agent_args cl openAPIKey in
        (case NewAgent ag a of
           Some err \<Rightarrow> ([Log (Error_text err)], 1)
         | None \<Rightarrow>
            if flag_value False (flag_list_templates cl) then
              (Println ''Available templates:''
                 # map (\<lambda>tmpl. Printf (''- '' @ Name tmpl @ '': '' @ Description tmpl
                                       @ '' (Language: '' @ Language tmpl @ '')'' @ [CHR 0x0A]))
                       (ListTemplates ag a), 0)
            else if flag_value False (flag_list_languages cl) then
              (Println ''Supported languages:''
                 # map (\<lambda>lang. Printf (''- '' @ lang @ [CHR 0x0A])) (ListLanguages ag a), 0)
            else if length (Args cl) = 0 then
              ([Log ''please pass some arguments''], 1)
            else
              let prompt = Join (Args cl) '' '' in
              (case GenerateCode ag a prompt of
                 Some err \<Rightarrow>
                   ([Call_Start, Call_GenerateCode prompt,
                     Log (''error writing code: '' @ Error_text err @ [CHR 0x0A]), Call_Stop], 1)
               | None \<Rightarrow>
                   ([Call_Start, Call_GenerateCode prompt, Sleep (1 * Second), Call_Stop,
                     Log (''finished writing project to '' @ outputDir a)], 0))))"

section \<open>The orchestration core (package agents), from the specification\<close>

text \<open>
  Package agents (the Agent, its worker pool, the template catalog, the event sink)
  is called by \<open>main\<close> but is not among the sources.  Every definition of this
  section is written from the specification, sections 3 to 5 and 7, and says so.
\<close>

text \<open>Modelled from the spec: the two classes of a generation failure (section 4.2);
  package agents is missing.\<close>

datatype classification = Transient | Fatal

text \<open>Modelled from the spec: FileSpec (section 3): the relative output path and the
  generation instruction; package agents is missing.\<close>

record FileSpec =
  path :: string
  instruction :: string

text \<open>Modelled from the spec: Template (section 3): a name, a description, a language
  tag and the ordered file specifications; package agents is missing.\<close>

record Template =
  tmpl_name :: string
  tmpl_description :: string
  tmpl_language :: string
  files :: "FileSpec list"

text \<open>Modelled from the spec: GenerationTask (section 3): an identifier, the owning
  FileSpec and the two resolved prompts; package agents is missing.\<close>

record GenerationTask =
  task_id :: nat
  owner :: FileSpec
  system_prompt :: string
  user_prompt :: string

text \<open>Modelled from the spec: TaskResult (section 3): the task it answers (its
  identifier and the path of its FileSpec) and either the generated content or a
  classified failure; package agents is missing.\<close>

datatype outcome = Generated string | Failure classification string

text \<open>Modelled from the spec: TaskResult (section 3), as described above the datatype
  of its outcome; package agents is missing.\<close>

record TaskResult =
  of_task :: nat
  of_path :: string
  outcome :: outcome

text \<open>Modelled from the spec: the GenerationClient capability (section 4.2):
  a system and a user instruction give a text or a classified error; the Agent's
  use of it is in the missing package agents.\<close>

type_synonym GenerationClient = "string \<Rightarrow> string \<Rightarrow> (classification \<times> string) + string"

text \<open>Modelled from the spec: \<open>Resolve\<close> of the TemplateCatalog (section 4.1);
  \<open>None\<close> is the failure TemplateNotFound; package agents is missing.\<close>

definition Resolve :: "Template list \<Rightarrow> string \<Rightarrow> Template option" where
  "Resolve catalog n = find (\<lambda>t. tmpl_name t = n) catalog"

text \<open>Modelled from the spec: the ordered task list of \<open>GenerateCode\<close> (section 4.4):
  one task per FileSpec, in order; the system prompt is made of the template and its
  language, the user prompt of the project prompt, the file's instruction and the base
  package (the specification names the ingredients only; they are joined by line
  breaks here); package agents is missing.\<close>

definition build_tasks :: "Template \<Rightarrow> string \<Rightarrow> string \<Rightarrow> GenerationTask list" where
  "build_tasks tmpl prompt base =
     map (\<lambda>(i, f). \<lparr>task_id = i, owner = f,
                     system_prompt = tmpl_name tmpl @ [CHR 0x0A] @ tmpl_language tmpl,
                     user_prompt = prompt @ [CHR 0x0A] @ instruction f @ [CHR 0x0A] @ base\<rparr>)
         (enumerate 0 (files tmpl))"

text \<open>Modelled from the spec: what a worker does with a task (section 4.3): it
  invokes the client with the task's prompts and emits a result with the content, or
  with the classified error; package agents is missing.\<close>

definition run_task :: "GenerationClient \<Rightarrow> GenerationTask \<Rightarrow> TaskResult" where
  "run_task client t =
     \<lparr>of_task = task_id t, of_path = path (owner t),
      outcome = (case client (system_prompt t) (user_prompt t) of
                   Inl (c, cause) \<Rightarrow> Failure c cause
                 | Inr content \<Rightarrow> Generated content)\<rparr>"

text \<open>Modelled from the spec: the WorkerPool (section 4.3): its fixed number of
  workers, the shared task queue, the tasks workers hold at the moment (at most one
  per worker) and the shared result stream, oldest result first; package agents is
  missing.\<close>

record pool =
  workers :: nat
  queue :: "GenerationTask list"
  in_flight :: "GenerationTask list"
  results :: "TaskResult list"

text \<open>Modelled from the spec: submitting all tasks of a run to a pool of the
  configured size (section 4.4); the queue holds them all (section 4.3); package
  agents is missing.\<close>

definition submit :: "nat \<Rightarrow> GenerationTask list \<Rightarrow> pool" where
  "submit n tasks = \<lparr>workers = n, queue = tasks, in_flight = [], results = []\<rparr>"

text \<open>Modelled from the spec: one action of the pool (sections 4.3 and 5).  The
  workers run concurrently, so which action comes next is the scheduler's choice, the
  number \<open>choice\<close>: among the actions possible now, a worker holding a task finishes it
  (its result joins the result stream), or, when the queue is not empty and a worker
  is free, a free worker receives the next task.  A failure is a result like any
  other.  With no action possible the pool stays as it is.  Package agents is
  missing.\<close>

definition pool_step :: "GenerationClient \<Rightarrow> nat \<Rightarrow> pool \<Rightarrow> pool" where
  "pool_step client choice p =
     (let can_receive = (queue p \<noteq> [] \<and> length (in_flight p) < workers p);
          actions = length (in_flight p) + (if can_receive then 1 else 0)
      in if actions = 0 then p
         else
           let a = choice mod actions in
           if a < length (in_flight p) then
             p\<lparr>in_flight := take a (in_flight p) @ drop (Suc a) (in_flight p),
                results := results p @ [run_task client (in_flight p ! a)]\<rparr>
           else
             (case queue p of
                [] \<Rightarrow> p
              | t # rest \<Rightarrow> p\<lparr>queue := rest, in_flight := in_flight p @ [t]\<rparr>))"

text \<open>Modelled from the spec: a run of the pool under a schedule, the scheduler's
  choices in order, and the drain signal: every submitted task has produced its
  result (section 4.3); package agents is missing.\<close>

fun pool_run :: "GenerationClient \<Rightarrow> nat list \<Rightarrow> pool \<Rightarrow> pool" where
  "pool_run client [] p = p"
| "pool_run client (choice # schedule) p = pool_run client schedule (pool_step client choice p)"

text \<open>Modelled from the spec: the drain signal of the pool (section 4.3): no task is
  left in the queue or with a worker; package agents is missing.\<close>

definition drained :: "pool \<Rightarrow> bool" where
  "drained p \<longleftrightarrow> queue p = [] \<and> in_flight p = []"

text \<open>Modelled from the spec: ProgressEvent (section 3): \<open>start\<close> with the total file
  count, \<open>file\<close> with the path, \<open>error\<close> with the path and the cause, \<open>complete\<close> with
  a summary (the number of files); and the terminal event of a failed run, the
  aggregate failure, which names every failed path with its cause (sections 4.5, 7
  and 8); package agents is missing.\<close>

datatype ProgressEvent =
    is_start: Start_event (event_total: nat)
  | is_file: File_event (event_path: string)
  | is_error: Error_event (event_path: string) (event_cause: string)
  | is_complete: Complete_event (event_summary: nat)
  | is_failure: Failure_event (event_failures: "(string \<times> string) list")

text \<open>Modelled from the spec: the error kinds of section 7 and of section 4.4;
  package agents is missing.\<close>

datatype agent_error =
    ConfigError string
  | TemplateNotFound string
  | InvalidStateError
  | AlreadyRunningError
  | PartialGenerationError "(string \<times> string) list"
  | CancelledError

text \<open>Modelled from the spec: the states of the Agent (section 4.4); package agents
  is missing.\<close>

datatype agent_state = Idle | Started | Generating | Completed | Failed | Cancelled | Stopped

text \<open>Modelled from the spec: the Agent (sections 2 and 4.4): its state, what it was
  constructed with, the events it has emitted to its sink, oldest first, and the
  files it has written; \<open>writable\<close> says for which paths a write succeeds; package
  agents is missing.\<close>

record Agent =
  state :: agent_state
  catalog :: "Template list"
  agent_template :: string
  agent_base_package :: string
  output_root :: string
  project_name :: string
  agent_workers :: nat
  generation_client :: GenerationClient
  writable :: "string \<Rightarrow> bool"
  sink :: "ProgressEvent list"
  disk :: "(string \<times> string) list"

text \<open>Modelled from the spec: the worker-count check at construction (sections 4.3,
  6 and 7): a count from 1 to the configured maximum, 8 for the command line, is
  accepted; any other is a ConfigError, raised before any task runs; package agents
  is missing.\<close>

definition max_workers :: int where
  "max_workers = 8"

text \<open>Modelled from the spec: the validation of a configured worker count (sections
  4.3 and 7); package agents is missing.\<close>

definition validate_worker_count :: "int \<Rightarrow> agent_error option" where
  "validate_worker_count n =
     (if 1 \<le> n \<and> n \<le> max_workers then None else Some (ConfigError ''invalid worker count''))"

text \<open>Modelled from the spec: how an error of package agents reaches \<open>main\<close>: as a Go
  error whose message names its kind; package agents is missing.\<close>

fun as_error :: "agent_error \<Rightarrow> error" where
  "as_error (ConfigError m) = External (''ConfigError: '' @ m)"
| "as_error (TemplateNotFound n) = External (''TemplateNotFound: '' @ n)"
| "as_error InvalidStateError = External ''InvalidStateError''"
| "as_error AlreadyRunningError = External ''AlreadyRunningError''"
| "as_error (PartialGenerationError fs) = External ''PartialGenerationError''"
| "as_error CancelledError = External ''CancelledError''"

text \<open>Modelled from the spec: a package agents whose \<open>NewAgent\<close> checks the worker
  count before anything else (section 7: a ConfigError is raised before any task
  runs) and otherwise behaves as the given one; package agents is missing.\<close>

definition validating :: "agents \<Rightarrow> agents" where
  "validating ag =
     ag\<lparr>NewAgent := \<lambda>a. (case validate_worker_count (workerCount a) of
                            Some e \<Rightarrow> Some (as_error e)
                          | None \<Rightarrow> NewAgent ag a)\<rparr>"

text \<open>Modelled from the spec: \<open>Start\<close> and \<open>Stop\<close> (section 4.4): \<open>Start\<close> takes an idle
  Agent to Started and initialises the event channel, and is a no-op otherwise;
  \<open>Stop\<close> takes the Agent to Stopped from any state; package agents is missing.\<close>

definition Start :: "Agent \<Rightarrow> Agent" where
  "Start a = (if state a = Idle then a\<lparr>state := Started, sink := []\<rparr> else a)"

text \<open>Modelled from the spec: \<open>Stop\<close> (section 4.4): from any state to Stopped; package
  agents is missing.\<close>

definition Stop :: "Agent \<Rightarrow> Agent" where
  "Stop a = a\<lparr>state := Stopped\<rparr>"

text \<open>Modelled from the spec: the admission check of \<open>GenerateCode\<close> (section 4.4):
  it requires the Started state; an Agent that is generating or has finished its run
  rejects the call with AlreadyRunningError (one run per lifetime between Start and
  Stop), an Agent that was not started or was stopped with InvalidStateError;
  package agents is missing.\<close>

fun admit :: "agent_state \<Rightarrow> agent_error option" where
  "admit Started = None"
| "admit Idle = Some InvalidStateError"
| "admit Stopped = Some InvalidStateError"
| "admit s = Some AlreadyRunningError"

text \<open>Modelled from the spec: what the Agent does with one result (sections 4.4
  and 7): on success it writes the content under the output root and the project
  name and emits a \<open>file\<close> event; on failure, also a failed write, it emits an \<open>error\<close>
  event and records the path and the cause; package agents is missing.\<close>

definition consume_one ::
  "Agent \<times> (string \<times> string) list \<Rightarrow> TaskResult \<Rightarrow> Agent \<times> (string \<times> string) list" where
  "consume_one af r =
     (let a = fst af; failures = snd af;
          target = output_root a @ ''/'' @ project_name a @ ''/'' @ of_path r
      in case outcome r of
           Generated content \<Rightarrow>
             if writable a target then
               (a\<lparr>disk := disk a @ [(target, content)], sink := sink a @ [File_event (of_path r)]\<rparr>,
                failures)
             else
               (a\<lparr>sink := sink a @ [Error_event (of_path r) ''WriteError'']\<rparr>,
                failures @ [(of_path r, ''WriteError'')])
         | Failure c cause \<Rightarrow>
             (a\<lparr>sink := sink a @ [Error_event (of_path r) cause]\<rparr>,
              failures @ [(of_path r, cause)]))"

text \<open>Modelled from the spec: \<open>GenerateCode\<close> (sections 4.4 and 5).  After the
  admission check it resolves the template (on failure the run has failed), builds
  the tasks, emits \<open>start\<close> with their number, submits them to a pool of the
  configured size and consumes the results in the order of the result stream.  The
  pool runs under \<open>schedule\<close>.  \<open>cancel = Some c\<close> is a cancellation that arrives after
  \<open>c\<close> actions of the pool: if the pool has not drained by then, the run ends in state
  Cancelled with CancelledError, and what was written stays.  Once the pool has
  drained, the run ends with exactly one terminal event: if a task failed it is
  Failed, emits the aggregate failure and returns it as its error; otherwise it is
  Completed and emits a \<open>complete\<close> event.  The value \<open>None\<close> is a call that has not
  returned: the schedule ends before the pool has drained and no cancellation came.
  Package agents is missing.\<close>

definition agent_GenerateCode ::
  "Agent \<Rightarrow> string \<Rightarrow> nat list \<Rightarrow> nat option \<Rightarrow> (Agent \<times> agent_error option) option" where
  "agent_GenerateCode a prompt schedule cancel =
     (case admit (state a) of
        Some e \<Rightarrow> Some (a, Some e)
      | None \<Rightarrow>
         (case Resolve (catalog a) (agent_template a) of
            None \<Rightarrow> Some (a\<lparr>state := Failed\<rparr>, Some (TemplateNotFound (agent_template a)))
          | Some tmpl \<Rightarrow>
             let tasks = build_tasks tmpl prompt (agent_base_package a);
                 a1 = a\<lparr>state := Generating, sink := sink a @ [Start_event (length tasks)]\<rparr>;
                 p = pool_run (generation_client a)
                       (case cancel of None \<Rightarrow> schedule | Some c \<Rightarrow> take c schedule)
                       (submit (agent_workers a) tasks);
                 af = foldl consume_one (a1, []) (results p)
             in if drained p then
                  (if snd af = [] then
                     Some ((fst af)\<lparr>state := Completed,
                                     sink := sink (fst af) @ [Complete_event (length tasks)]\<rparr>,
                           None)
                   else Some ((fst af)\<lparr>state := Failed,
                                          sink := sink (fst af) @ [Failure_event (snd af)]\<rparr>,
                              Some (PartialGenerationError (snd af))))
                else
                  (case cancel of
                     None \<Rightarrow> None
                   | Some c \<Rightarrow> Some ((fst af)\<lparr>state := Cancelled\<rparr>, Some CancelledError))))"

text \<open>Modelled from the spec: the calls a user of one Agent makes, one after the
  other, and the values the \<open>GenerateCode\<close> calls among them return, in order
  (\<open>None\<close>: some call has not returned); package agents is missing.\<close>

datatype agent_call = Call_of_Start | Call_of_Stop | Call_of_GenerateCode string "nat list" "nat option"

text \<open>Modelled from the spec: a sequence of calls on one Agent and what its
  \<open>GenerateCode\<close> calls return (section 4.4); package agents is missing.\<close>

fun calls :: "agent_call list \<Rightarrow> Agent \<Rightarrow> (Agent \<times> agent_error option list) option" where
  "calls [] a = Some (a, [])"
| "calls (Call_of_Start # cs) a = calls cs (Start a)"
| "calls (Call_of_Stop # cs) a = calls cs (Stop a)"
| "calls (Call_of_GenerateCode prompt schedule cancel # cs) a =
     (case agent_GenerateCode a prompt schedule cancel of
        None \<Rightarrow> None
      | Some (a', r) \<Rightarrow>
         (case calls cs a' of None \<Rightarrow> None | Some (a'', rs) \<Rightarrow> Some (a'', r # rs)))"

text \<open>Modelled from the spec: a call of \<open>GenerateCode\<close> performed a run unless it was
  rejected at admission (section 4.4); package agents is missing.\<close>

fun performed_run :: "agent_error option \<Rightarrow> bool" where
  "performed_run (Some InvalidStateError) = False"
| "performed_run (Some AlreadyRunningError) = False"
| "performed_run r = True"

section \<open>Sample inputs\<close>

text \<open>
  A world in which every library call succeeds and the server answers with the given
  status code and a body that decodes to the given structs.
\<close>

definition answering ::
  "nat \<Rightarrow> chat_response \<Rightarrow> gemini_response \<Rightarrow> anthropic_response \<Rightarrow> world" where
  "answering status chat gem ant =
     \<lparr>Marshal = (\<lambda>j. Inr ''{}''),
      NewRequestWithContext = (\<lambda>c m u b. None),
      Do = (\<lambda>hc req. Inr \<lparr>StatusCode = status, ReadAll_Body = Inr ''{}''\<rparr>),
      Unmarshal_chat = (\<lambda>body. Inr chat),
      Unmarshal_gemini = (\<lambda>body. Inr gem),
      Unmarshal_anthropic = (\<lambda>body. Inr ant)\<rparr>"

definition no_content :: "nat \<Rightarrow> world" where
  "no_content status =
     answering status \<lparr>Choices = [], Error = None\<rparr>
       \<lparr>Candidates = [\<lparr>candidate_Content = \<lparr>Parts = []\<rparr>\<rparr>], gemini_Error = None\<rparr>
       \<lparr>anthropic_Content = [], anthropic_Error = None\<rparr>"

definition refusing :: "nat \<Rightarrow> world" where
  "refusing status =
     answering status \<lparr>Choices = [], Error = Some \<lparr>error_Message = ''denied''\<rparr>\<rparr>
       \<lparr>Candidates = [], gemini_Error = Some \<lparr>error_Message = ''denied''\<rparr>\<rparr>
       \<lparr>anthropic_Content = [], anthropic_Error = Some \<lparr>error_Message = ''denied''\<rparr>\<rparr>"

definition sample_client :: client where
  "sample_client = NewOpenAIClient Background ''sk-test'' ''gpt-4o-mini'' False ''''
                     (Some \<lparr>Timeout = Second * 120\<rparr>)"

text \<open>A world like \<open>no_content 200\<close>, except that \<open>json.Marshal\<close> fails on exactly one
  value.\<close>

definition refusing_to_marshal :: "json \<Rightarrow> world" where
  "refusing_to_marshal j =
     (no_content 200)\<lparr>Marshal := \<lambda>v. if v = j then Inl (External ''unsupported value'')
                                     else Inr ''{}''\<rparr>"

definition sample_cmdline :: cmdline where
  "sample_cmdline =
     \<lparr>flag_openai_key = Some ''sk-test'', flag_output_dir = None, flag_base_package = None,
      flag_worker_count = None, flag_template = None, flag_language = None,
      flag_model = None, flag_timeout = None, flag_list_templates = None,
      flag_list_languages = None, Args = [''CRUD'', ''API'']\<rparr>"

definition sample_agents :: "error option \<Rightarrow> agents" where
  "sample_agents res =
     \<lparr>NewAgent = (\<lambda>a. None), ListTemplates = (\<lambda>a. []), ListLanguages = (\<lambda>a. [''go'']),
      GenerateCode = (\<lambda>a prompt. res)\<rparr>"

text \<open>A template with two files, a generation client that fails on short user
  prompts (here: on the second file), and an Agent over them.\<close>

definition sample_template :: Template where
  "sample_template =
     \<lparr>tmpl_name = ''go-gin'', tmpl_description = ''Gin API'', tmpl_language = ''go'',
      files = [\<lparr>path = ''main.go'', instruction = ''entry point''\<rparr>,
               \<lparr>path = ''go.mod'', instruction = ''module''\<rparr>]\<rparr>"

definition sample_generator :: GenerationClient where
  "sample_generator sys user =
     (if length user < 12 then Inl (Transient, ''rate limit'') else Inr (''// '' @ user))"

definition sample_agent :: Agent where
  "sample_agent =
     \<lparr>state = Idle, catalog = [sample_template], agent_template = ''go-gin'',
      agent_base_package = ''b'', output_root = ''out'', project_name = ''proj'',
      agent_workers = 2, generation_client = sample_generator, writable = (\<lambda>target. True),
      sink = [], disk = []\<rparr>"

section \<open>Facts about the provider clients\<close>

lemma index_0: "index xs 0 = (case xs of [] \<Rightarrow> None | x # rest \<Rightarrow> Some x)"
  by (cases xs) (simp_all add: index_def)

lemmas Query_defs = OpenAIClient_Query_def GeminiClient_Query_def AnthropicClient_Query_def
  MistralClient_Query_def OpenRouterClient_Query_def OpenAICompatibleClient_Query_def

lemma Query_status:
  "Query cl (w\<lparr>Do := \<lambda>hc req. map_sum id (\<lambda>r. r\<lparr>StatusCode := f (StatusCode r)\<rparr>) (Do w hc req)\<rparr>)
     s p = Query cl w s p"
  by (cases cl)
     (auto simp: Query_defs index_0 Let_def split: sum.splits option.splits list.splits)

text \<open>The product with one second in int64: the integer product, reduced into the
  range of int64.\<close>

lemma sint_seconds_wrap:
  "sint (word_of_int t * Second :: 64 word) = signed_take_bit 63 (t * 1000000000)"
proof -
  have c: "word_of_int t * Second = (word_of_int (t * 1000000000) :: 64 word)"
    by (simp add: Second_def)
  have a: "sint (word_of_int (t * 1000000000) :: 64 word)
             = signed_take_bit (LENGTH(64) - 1) (t * 1000000000)"
    by (rule sint_sbintrunc')
  have l: "LENGTH(64) - 1 = (63::nat)" by simp
  show ?thesis by (simp only: c a l)
qed

lemma sint_seconds:
  assumes "- 9223372036 \<le> t" and "t \<le> 9223372036"
  shows "sint (word_of_int t * Second :: 64 word) = t * 1000000000"
proof -
  have "signed_take_bit 63 (t * 1000000000) = t * 1000000000"
    using assms by (simp add: signed_take_bit_int_eq_self_iff)
  then show ?thesis by (simp only: sint_seconds_wrap)
qed

lemma sint_120_seconds: "sint (Second * 120 :: 64 word) = 120000000000"
  by (simp add: Second_def)

text \<open>What \<open>Query\<close> returns once the provider's answer has been read: the answer is
  the body of the response \<open>Do\<close> gave for the request built from the marshalled
  payload.\<close>

lemma Query_marshal_error:
  assumes "Marshal w (payload_of cl s p) = Inl e"
  shows "Query cl w s p = Returns '''' (Some e)"
  using assms by (cases cl) (simp_all add: Query_defs)

lemma Query_send_error:
  assumes "Marshal w (payload_of cl s p) = Inr bs"
    and "NewRequestWithContext w (ctx (client_of cl)) ''POST'' (URL (request_of cl bs)) bs = None"
    and "httpClient (client_of cl) = Some hc"
    and "Do w hc (request_of cl bs) = Inl e"
  shows "Query cl w s p = Returns '''' (Some (Wrapped ''error sending request: '' e))"
  using assms
  by (cases cl) (simp_all add: Query_defs Header_Set_def new_request_def Let_def)





lemma NewAPIClient_client:
  "\<exists>cl. NewAPIClient c provider key m u url hcp = (Some cl, None)
     \<and> httpClient (client_of cl)
         = Some (case hcp of None \<Rightarrow> \<lparr>Timeout = Second * 120\<rparr> | Some h \<Rightarrow> h)"
  by (cases hcp)
     (simp_all add: NewAPIClient_def Let_def NewGeminiClient_def NewOpenAIClient_def
        NewAnthropicClient_def NewMistralClient_def NewOpenRouterClient_def
        NewOpenAICompatibleClient_def)


section \<open>Selecting a client\<close>

text \<open>
  C8.  For every provider name \<open>NewAPIClient\<close> returns a non-nil client and a nil
  error.  The name decides the struct: \<open>gemini\<close> gives a \<open>GeminiClient\<close>, \<open>openai\<close>
  and the empty string an \<open>OpenAIClient\<close>, \<open>anthropic\<close> an \<open>AnthropicClient\<close>,
  \<open>mistral\<close> a \<open>MistralClient\<close>, \<open>openrouter\<close> an \<open>OpenRouterClient\<close>, every other
  string an \<open>OpenAICompatibleClient\<close>; the client carries the key and the model it was
  given.
\<close>

theorem NewAPIClient_selects_by_name:
  "\<exists>cl. NewAPIClient c provider key m useCustomBaseURL url hcp = (Some cl, None)
     \<and> (is_GeminiClient cl \<longleftrightarrow> provider = ''gemini'')
     \<and> (is_OpenAIClient cl \<longleftrightarrow> provider = ''openai'' \<or> provider = '''')
     \<and> (is_AnthropicClient cl \<longleftrightarrow> provider = ''anthropic'')
     \<and> (is_MistralClient cl \<longleftrightarrow> provider = ''mistral'')
     \<and> (is_OpenRouterClient cl \<longleftrightarrow> provider = ''openrouter'')
     \<and> (is_OpenAICompatibleClient cl \<longleftrightarrow>
          provider \<notin> {''gemini'', ''openai'', '''', ''anthropic'', ''mistral'', ''openrouter''})
     \<and> apiKey (client_of cl) = key \<and> model (client_of cl) = m"
  by (simp add: NewAPIClient_def Let_def NewGeminiClient_def NewOpenAIClient_def
        NewAnthropicClient_def NewMistralClient_def NewOpenRouterClient_def
        NewOpenAICompatibleClient_def)

theorem NewAPIClient_selects_by_name_witness:
  "\<exists>cl. NewAPIClient Background ''groq'' ''k'' ''llama'' True ''https://example.org/v1'' None
           = (Some cl, None)
     \<and> is_OpenAICompatibleClient cl \<and> apiKey (client_of cl) = ''k''"
  using NewAPIClient_selects_by_name
    [of Background "''groq''" "''k''" "''llama''" True "''https://example.org/v1''" None]
  by auto

section \<open>An empty system prompt\<close>

text \<open>
  C9.  \<open>Query\<close> of every client marshals exactly the payload written out below and
  sends the marshalled bytes as the body of its request (in any world: an error of
  \<open>json.Marshal\<close> on that payload, and an error of \<open>Do\<close> on the request carrying
  these bytes, is what \<open>Query\<close> returns).  With an empty system prompt no payload
  carries an empty system instruction: \<open>OpenAIClient\<close> and \<open>OpenAICompatibleClient\<close>
  send the system message ``You are a helpful assistant.''; \<open>GeminiClient\<close> sends the
  user prompt unchanged, and otherwise the system prompt, a blank line and the
  prompt; \<open>AnthropicClient\<close> leaves the key \<open>system\<close> out of the payload, and otherwise
  sets it to the system prompt; \<open>MistralClient\<close> and \<open>OpenRouterClient\<close> send the user
  message alone, and otherwise the system message before it.
\<close>

theorem empty_system_prompt_substituted:
  "(\<forall>e. Marshal w (payload_of cl s p) = Inl e \<longrightarrow> Query cl w s p = Returns '''' (Some e))
   \<and> (\<forall>hc e. Marshal w (payload_of cl s p) = Inr bs
         \<and> NewRequestWithContext w (ctx (client_of cl)) ''POST'' (URL (request_of cl bs)) bs = None
         \<and> httpClient (client_of cl) = Some hc
         \<and> Do w hc (request_of cl bs) = Inl e
       \<longrightarrow> Query cl w s p = Returns '''' (Some (Wrapped ''error sending request: '' e)))
   \<and> Body (request_of cl bs) = bs
   \<and> payload_of (OpenAIClient c) s p =
       JObject [(''model'', JString (model c)),
                (''messages'', JArray
                   [JObject [(''role'', JString ''system''),
                             (''content'', JString (if s = '''' then ''You are a helpful assistant.''
                                                    else s))],
                    JObject [(''role'', JString ''user''), (''content'', JString p)]])]
   \<and> payload_of (OpenAICompatibleClient c) s p =
       JObject [(''model'', JString (model c)),
                (''messages'', JArray
                   [JObject [(''role'', JString ''system''),
                             (''content'', JString (if s = '''' then ''You are a helpful assistant.''
                                                    else s))],
                    JObject [(''role'', JString ''user''), (''content'', JString p)]])]
   \<and> payload_of (GeminiClient c) s p =
       JObject [(''contents'', JArray [JObject [(''parts'', JArray
          [JObject [(''text'', JString (if s = '''' then p else s @ [CHR 0x0A, CHR 0x0A] @ p))]])]])]
   \<and> payload_of (AnthropicClient c) s p =
       JObject ([(''model'', JString (model c)),
                 (''messages'', JArray
                    [JObject [(''role'', JString ''user''), (''content'', JString p)]]),
                 (''max_tokens'', JInt 4000)]
                @ (if s = '''' then [] else [(''system'', JString s)]))
   \<and> payload_of (MistralClient c) s p =
       JObject [(''model'', JString (model c)),
                (''messages'', JArray
                   ((if s = '''' then []
                     else [JObject [(''role'', JString ''system''), (''content'', JString s)]])
                    @ [JObject [(''role'', JString ''user''), (''content'', JString p)]]))]
   \<and> payload_of (OpenRouterClient c) s p =
       JObject [(''model'', JString (model c)),
                (''messages'', JArray
                   ((if s = '''' then []
                     else [JObject [(''role'', JString ''system''), (''content'', JString s)]])
                    @ [JObject [(''role'', JString ''user''), (''content'', JString p)]]))]"
proof (intro conjI allI impI)
  fix e assume "Marshal w (payload_of cl s p) = Inl e"
  then show "Query cl w s p = Returns '''' (Some e)" by (rule Query_marshal_error)
next
  fix hc e
  assume a: "Marshal w (payload_of cl s p) = Inr bs
         \<and> NewRequestWithContext w (ctx (client_of cl)) ''POST'' (URL (request_of cl bs)) bs = None
         \<and> httpClient (client_of cl) = Some hc
         \<and> Do w hc (request_of cl bs) = Inl e"
  show "Query cl w s p = Returns '''' (Some (Wrapped ''error sending request: '' e))"
    by (rule Query_send_error [of w cl s p bs hc e]) (simp_all add: a)
next
  show "Body (request_of cl bs) = bs"
    by (cases cl) (simp_all add: Header_Set_def new_request_def)
qed (simp_all add: OpenAIClient_payload_def OpenAICompatibleClient_payload_def
       GeminiClient_payload_def GeminiClient_fullPrompt_def AnthropicClient_payload_def
       MistralClient_payload_def OpenRouterClient_payload_def Let_def)

theorem empty_system_prompt_substituted_witness:
  "Query (AnthropicClient sample_client)
     (refusing_to_marshal
        (JObject [(''model'', JString ''gpt-4o-mini''),
                  (''messages'', JArray
                     [JObject [(''role'', JString ''user''), (''content'', JString ''hi'')]]),
                  (''max_tokens'', JInt 4000)]))
     '''' ''hi''
     = Returns '''' (Some (External ''unsupported value''))
   \<and> Query (OpenAIClient sample_client)
       (refusing_to_marshal
          (JObject [(''model'', JString ''gpt-4o-mini''),
                    (''messages'', JArray
                       [JObject [(''role'', JString ''system''),
                                 (''content'', JString ''You are a helpful assistant.'')],
                        JObject [(''role'', JString ''user''), (''content'', JString ''hi'')]])]))
       '''' ''hi''
     = Returns '''' (Some (External ''unsupported value''))
   \<and> Query (GeminiClient sample_client)
       (refusing_to_marshal
          (JObject [(''contents'', JArray [JObject [(''parts'', JArray
              [JObject [(''text'', JString ''hi'')]])]])]))
       '''' ''hi''
     = Returns '''' (Some (External ''unsupported value''))"
  using empty_system_prompt_substituted
      [where cl = "AnthropicClient sample_client" and c = sample_client and s = "''''"
         and p = "''hi''"
         and w = "refusing_to_marshal
                    (JObject [(''model'', JString ''gpt-4o-mini''),
                              (''messages'', JArray
                                 [JObject [(''role'', JString ''user''),
                                           (''content'', JString ''hi'')]]),
                              (''max_tokens'', JInt 4000)])"]
    empty_system_prompt_substituted
      [where cl = "OpenAIClient sample_client" and c = sample_client and s = "''''"
         and p = "''hi''"
         and w = "refusing_to_marshal
                    (JObject [(''model'', JString ''gpt-4o-mini''),
                              (''messages'', JArray
                                 [JObject [(''role'', JString ''system''),
                                           (''content'', JString ''You are a helpful assistant.'')],
                                  JObject [(''role'', JString ''user''),
                                           (''content'', JString ''hi'')]])])"]
    empty_system_prompt_substituted
      [where cl = "GeminiClient sample_client" and c = sample_client and s = "''''"
         and p = "''hi''"
         and w = "refusing_to_marshal
                    (JObject [(''contents'', JArray [JObject [(''parts'', JArray
                        [JObject [(''text'', JString ''hi'')]])]])])"]
  by (simp add: refusing_to_marshal_def sample_client_def NewOpenAIClient_def)

section \<open>Responses without content\<close>



section \<open>What an error of Query carries\<close>

text \<open>
  C3, as the code has it.  \<open>Query\<close> never reads the status code of the response: its
  result is the same whatever the status code is.  An error it returns is the error
  of \<open>json.Marshal\<close> itself, a library error wrapped behind one of four fixed prefixes,
  or a plain message (the provider's error message behind ``API error: '', or that no
  choice or no content was returned).  No class, transient or fatal, is attached.
\<close>

theorem Query_error_is_unclassified:
  "Query cl (w\<lparr>Do := \<lambda>hc req. map_sum id (\<lambda>r. r\<lparr>StatusCode := f (StatusCode r)\<rparr>) (Do w hc req)\<rparr>)
     s p = Query cl w s p
   \<and> (\<forall>e. error_of (Query cl w s p) = Some e \<longrightarrow>
         (\<exists>j. Marshal w j = Inl e)
       \<or> (\<exists>e'. e = Wrapped ''error creating request: '' e'
              \<or> e = Wrapped ''error sending request: '' e'
              \<or> e = Wrapped ''error reading response: '' e'
              \<or> e = Wrapped ''error unmarshaling response: '' e')
       \<or> (\<exists>msg. e = Errorf (''API error: '' @ msg))
       \<or> e = Errorf ''no choices returned from API''
       \<or> e = Errorf ''no content returned from API'')"
proof
  show "Query cl (w\<lparr>Do := \<lambda>hc req. map_sum id (\<lambda>r. r\<lparr>StatusCode := f (StatusCode r)\<rparr>)
          (Do w hc req)\<rparr>) s p = Query cl w s p"
    by (rule Query_status)
  show "\<forall>e. error_of (Query cl w s p) = Some e \<longrightarrow>
         (\<exists>j. Marshal w j = Inl e)
       \<or> (\<exists>e'. e = Wrapped ''error creating request: '' e'
              \<or> e = Wrapped ''error sending request: '' e'
              \<or> e = Wrapped ''error reading response: '' e'
              \<or> e = Wrapped ''error unmarshaling response: '' e')
       \<or> (\<exists>msg. e = Errorf (''API error: '' @ msg))
       \<or> e = Errorf ''no choices returned from API''
       \<or> e = Errorf ''no content returned from API''"
    by (cases cl)
       (auto simp: Query_defs index_0 Let_def split: sum.splits option.splits list.splits)
qed

theorem Query_error_is_unclassified_witness:
  "Query (AnthropicClient sample_client)
     ((refusing 429)\<lparr>Do := \<lambda>hc req. map_sum id (\<lambda>r. r\<lparr>StatusCode := 401\<rparr>)
                                     (Do (refusing 429) hc req)\<rparr>) '''' ''hi''
     = Query (AnthropicClient sample_client) (refusing 429) '''' ''hi''
   \<and> error_of (Query (AnthropicClient sample_client) (refusing 429) '''' ''hi'')
       = Some (Errorf ''API error: denied'')"
  using Query_error_is_unclassified
    [where cl = "AnthropicClient sample_client" and w = "refusing 429" and f = "\<lambda>n. 401"
       and s = "''''" and p = "''hi''"]
  by (simp add: AnthropicClient_Query_def refusing_def answering_def sample_client_def
        NewOpenAIClient_def)

text \<open>
  The claim as stated fails: a rate-limited call (status 429, transient in the
  specification's words) and an unauthorised call (status 401, fatal) whose bodies
  carry the same message return the same error, so nothing read from the error can
  tell the two classes apart.
\<close>

theorem Query_error_class_counterexample:
  "error_of (Query (OpenAIClient sample_client) (refusing 429) '''' ''hi'')
     = Some (Errorf ''API error: denied'')
   \<and> error_of (Query (OpenAIClient sample_client) (refusing 401) '''' ''hi'')
     = Some (Errorf ''API error: denied'')
   \<and> \<not> (\<exists>classify.
          classify (error_of (Query (OpenAIClient sample_client) (refusing 429) '''' ''hi''))
            = Transient
        \<and> classify (error_of (Query (OpenAIClient sample_client) (refusing 401) '''' ''hi''))
            = Fatal)"
  by (simp add: OpenAIClient_Query_def refusing_def answering_def sample_client_def
        NewOpenAIClient_def)

section \<open>The exit code of the maker command\<close>

text \<open>
  C4, as the code has it.  The exit code of the maker command is decided by the
  first of these that applies: the API key is absent from both the flag and the
  environment: 1; \<open>NewAgent\<close> returns an error: 1; \<open>-list-templates\<close> or
  \<open>-list-languages\<close> is set: 0 (no prompt is needed); no positional word is given: 1;
  \<open>GenerateCode\<close> returns an error: 1; otherwise (\<open>GenerateCode\<close> returns no error): 0.
\<close>

theorem maker_exit_code:
  "snd (maker_main cl env ag) =
     (if maker_openAPIKey cl env = '''' then 1
      else if NewAgent ag (maker_agent_args cl (maker_openAPIKey cl env)) \<noteq> None then 1
      else if flag_value False (flag_list_templates cl)
              \<or> flag_value False (flag_list_languages cl) then 0
      else if Args cl = [] then 1
      else if GenerateCode ag (maker_agent_args cl (maker_openAPIKey cl env))
                (Join (Args cl) '' '') \<noteq> None then 1
      else 0)"
  by (auto simp: maker_main_def Let_def split: option.splits)

theorem maker_exit_code_witness:
  "snd (maker_main sample_cmdline '''' (sample_agents None)) = 0
   \<and> snd (maker_main sample_cmdline '''' (sample_agents (Some (External ''boom'')))) = 1
   \<and> snd (maker_main (sample_cmdline\<lparr>flag_openai_key := None\<rparr>) '''' (sample_agents None)) = 1
   \<and> snd (maker_main (sample_cmdline\<lparr>flag_openai_key := None, flag_list_templates := Some True\<rparr>)
            '''' (sample_agents None)) = 1
   \<and> snd (maker_main (sample_cmdline\<lparr>Args := []\<rparr>) '''' (sample_agents None)) = 1
   \<and> snd (maker_main (sample_cmdline\<lparr>flag_list_languages := Some True\<rparr>) ''''
            ((sample_agents None)\<lparr>NewAgent := \<lambda>a. Some (External ''no such template'')\<rparr>)) = 1"
  using maker_exit_code [of sample_cmdline "''''" "sample_agents None"]
    maker_exit_code [of sample_cmdline "''''" "sample_agents (Some (External ''boom''))"]
    maker_exit_code [of "sample_cmdline\<lparr>flag_openai_key := None\<rparr>" "''''" "sample_agents None"]
    maker_exit_code [of "sample_cmdline\<lparr>flag_openai_key := None, flag_list_templates := Some True\<rparr>"
                        "''''" "sample_agents None"]
    maker_exit_code [of "sample_cmdline\<lparr>Args := []\<rparr>" "''''" "sample_agents None"]
    maker_exit_code [of "sample_cmdline\<lparr>flag_list_languages := Some True\<rparr>" "''''"
                        "(sample_agents None)\<lparr>NewAgent := \<lambda>a. Some (External ''no such template'')\<rparr>"]
  by (simp add: sample_cmdline_def sample_agents_def maker_openAPIKey_def flag_value_def)

text \<open>
  The claim as stated fails: with an API key, \<open>-list-templates\<close> and no positional
  word the command lists the templates and exits with 0, although no prompt words
  are given.
\<close>

theorem maker_exit_code_counterexample:
  "Args (sample_cmdline\<lparr>flag_list_templates := Some True, Args := []\<rparr>) = []
   \<and> maker_main (sample_cmdline\<lparr>flag_list_templates := Some True, Args := []\<rparr>) ''''
       (sample_agents None) = ([Println ''Available templates:''], 0)"
  by (simp add: maker_main_def sample_cmdline_def sample_agents_def maker_openAPIKey_def
        flag_value_def)

section \<open>Timeouts of the HTTP clients\<close>

text \<open>
  C6, as the code has it.  The maker command builds its HTTP client with the value
  of \<open>-timeout\<close> (default 120) times one second, computed in int64: the \<open>Timeout\<close> is
  the integer product in nanoseconds reduced into the range of int64, and it sets a
  time limit exactly when it is positive.  For a value from 1 to 9223372036 the limit
  is that many seconds; for a value from -9223372036 to 0 the \<open>Timeout\<close> sets no
  limit; any other value wraps around.  \<open>NewAPIClient\<close> given a nil client substitutes
  one with a \<open>Timeout\<close> of 120 seconds, and stores a given client as it is, whatever
  its \<open>Timeout\<close>.
\<close>

theorem client_timeouts:
  "sint (Timeout (client_http (maker_agent_args cl k)))
     = signed_take_bit 63 (flag_value 120 (flag_timeout cl) * 1000000000)
   \<and> deadline (client_http (maker_agent_args cl k))
     = (if 0 < signed_take_bit 63 (flag_value 120 (flag_timeout cl) * 1000000000)
        then Some (signed_take_bit 63 (flag_value 120 (flag_timeout cl) * 1000000000))
        else None)
   \<and> (1 \<le> flag_value 120 (flag_timeout cl) \<and> flag_value 120 (flag_timeout cl) \<le> 9223372036
      \<longrightarrow> deadline (client_http (maker_agent_args cl k))
            = Some (flag_value 120 (flag_timeout cl) * 1000000000))
   \<and> (- 9223372036 \<le> flag_value 120 (flag_timeout cl) \<and> flag_value 120 (flag_timeout cl) \<le> 0
      \<longrightarrow> deadline (client_http (maker_agent_args cl k)) = None)
   \<and> (flag_timeout cl = None
      \<longrightarrow> deadline (client_http (maker_agent_args cl k)) = Some 120000000000)
   \<and> (\<exists>c. fst (NewAPIClient ctx0 provider key m u url None) = Some c
          \<and> httpClient (client_of c) = Some \<lparr>Timeout = Second * 120\<rparr>)
   \<and> deadline \<lparr>Timeout = Second * 120\<rparr> = Some 120000000000
   \<and> (\<exists>c. fst (NewAPIClient ctx0 provider key m u url (Some hc)) = Some c
          \<and> httpClient (client_of c) = Some hc)"
proof -
  have w: "sint (Timeout (client_http (maker_agent_args cl k)))
     = signed_take_bit 63 (flag_value 120 (flag_timeout cl) * 1000000000)"
    by (simp add: maker_agent_args_def sint_seconds_wrap)
  have d: "deadline (client_http (maker_agent_args cl k))
     = (if 0 < signed_take_bit 63 (flag_value 120 (flag_timeout cl) * 1000000000)
        then Some (signed_take_bit 63 (flag_value 120 (flag_timeout cl) * 1000000000))
        else None)"
    by (simp only: deadline_def w)
  have pos: "1 \<le> flag_value 120 (flag_timeout cl) \<and> flag_value 120 (flag_timeout cl) \<le> 9223372036
      \<longrightarrow> deadline (client_http (maker_agent_args cl k))
            = Some (flag_value 120 (flag_timeout cl) * 1000000000)"
    by (simp add: deadline_def maker_agent_args_def sint_seconds)
  have neg: "- 9223372036 \<le> flag_value 120 (flag_timeout cl) \<and> flag_value 120 (flag_timeout cl) \<le> 0
      \<longrightarrow> deadline (client_http (maker_agent_args cl k)) = None"
    by (simp add: deadline_def maker_agent_args_def sint_seconds)
  have dflt: "flag_timeout cl = None
      \<longrightarrow> deadline (client_http (maker_agent_args cl k)) = Some 120000000000"
    using sint_seconds [of 120]
    by (simp add: deadline_def maker_agent_args_def flag_value_def)
  have nil: "\<exists>c. fst (NewAPIClient ctx0 provider key m u url None) = Some c
          \<and> httpClient (client_of c) = Some \<lparr>Timeout = Second * 120\<rparr>"
    using NewAPIClient_client [of ctx0 provider key m u url None] by auto
  have lim: "deadline \<lparr>Timeout = Second * 120\<rparr> = Some 120000000000"
    by (simp add: deadline_def sint_120_seconds)
  have given: "\<exists>c. fst (NewAPIClient ctx0 provider key m u url (Some hc)) = Some c
          \<and> httpClient (client_of c) = Some hc"
    using NewAPIClient_client [of ctx0 provider key m u url "Some hc"] by auto
  from w d pos neg dflt nil lim given show ?thesis by (intro conjI)
qed

theorem client_timeouts_witness:
  "deadline (client_http (maker_agent_args (sample_cmdline\<lparr>flag_timeout := Some 30\<rparr>) ''sk-test''))
     = Some 30000000000
   \<and> deadline (client_http (maker_agent_args sample_cmdline ''sk-test'')) = Some 120000000000
   \<and> deadline (client_http (maker_agent_args (sample_cmdline\<lparr>flag_timeout := Some (- 5)\<rparr>)
                  ''sk-test'')) = None
   \<and> deadline (client_http
        (maker_agent_args (sample_cmdline\<lparr>flag_timeout := Some 18446744074\<rparr>) ''sk-test''))
     = Some 290448384"
  using client_timeouts [of "sample_cmdline\<lparr>flag_timeout := Some 30\<rparr>" "''sk-test''"]
    client_timeouts [of sample_cmdline "''sk-test''"]
    client_timeouts [of "sample_cmdline\<lparr>flag_timeout := Some (- 5)\<rparr>" "''sk-test''"]
    client_timeouts [of "sample_cmdline\<lparr>flag_timeout := Some 18446744074\<rparr>" "''sk-test''"]
  by (simp add: sample_cmdline_def flag_value_def)

text \<open>
  The claim as stated fails: \<open>-timeout 0\<close> gives a client whose \<open>Timeout\<close> is zero,
  which net/http reads as no time limit; so does a value whose product with one
  second overflows int64 to a negative number, and so does a client with a zero
  \<open>Timeout\<close> handed to \<open>NewAPIClient\<close>, which stores it unchanged.
\<close>

theorem client_timeouts_counterexample:
  "deadline (client_http (maker_agent_args (sample_cmdline\<lparr>flag_timeout := Some 0\<rparr>) ''sk-test''))
     = None
   \<and> deadline (client_http
        (maker_agent_args (sample_cmdline\<lparr>flag_timeout := Some 9223372037\<rparr>) ''sk-test'')) = None
   \<and> (\<exists>c. fst (NewAPIClient Background ''openai'' ''sk-test'' ''gpt-4o-mini'' False ''''
                (Some \<lparr>Timeout = 0\<rparr>)) = Some c
          \<and> httpClient (client_of c) = Some \<lparr>Timeout = 0\<rparr>)
   \<and> deadline \<lparr>Timeout = 0\<rparr> = None"
  by (simp add: deadline_def maker_agent_args_def sample_cmdline_def flag_value_def Second_def
        NewAPIClient_def NewOpenAIClient_def)


section \<open>Facts about the worker pool\<close>

lemma mset_remove_nth:
  assumes "a < length xs"
  shows "mset (take a xs @ drop (Suc a) xs) + {#xs ! a#} = mset xs"
proof -
  have "xs = take a xs @ xs ! a # drop (Suc a) xs"
    using assms by (rule id_take_nth_drop)
  then have "mset xs = mset (take a xs @ xs ! a # drop (Suc a) xs)" by simp
  then show ?thesis by simp
qed

lemma pool_step_workers: "workers (pool_step client n p) = workers p"
  by (simp add: pool_step_def Let_def split: list.splits)

lemma pool_step_drained: "drained p \<Longrightarrow> pool_step client n p = p"
  by (simp add: pool_step_def drained_def)

text \<open>Every action moves the pool one step towards its drain signal: receiving a
  task and finishing it are the two steps of each task.\<close>

lemma pool_step_progress:
  assumes "1 \<le> workers p" and "\<not> drained p"
  shows "2 * length (queue (pool_step client n p)) + length (in_flight (pool_step client n p)) + 1
           = 2 * length (queue p) + length (in_flight p)"
proof (cases "in_flight p = []")
  case True
  with assms obtain t rest where q: "queue p = t # rest"
    by (cases "queue p") (auto simp: drained_def)
  with True assms show ?thesis
    by (simp add: pool_step_def Let_def)
next
  case False
  then have pos: "0 < length (in_flight p)" by simp
  show ?thesis
  proof (cases "queue p \<noteq> [] \<and> length (in_flight p) < workers p")
    case cr: True
    then obtain t rest where q: "queue p = t # rest" by (cases "queue p") auto
    show ?thesis
    proof (cases "n mod (length (in_flight p) + 1) < length (in_flight p)")
      case True
      with cr q pos show ?thesis by (simp add: pool_step_def Let_def min_def)
    next
      case False
      with cr q pos show ?thesis by (simp add: pool_step_def Let_def)
    qed
  next
    case ncr: False
    have "n mod length (in_flight p) < length (in_flight p)" using pos by simp
    with ncr pos show ?thesis by (auto simp add: pool_step_def Let_def min_def)
  qed
qed

text \<open>No task is lost or answered twice: the results so far, with the results the
  tasks in flight and in the queue will give, stay the same collection.\<close>

lemma pool_step_accounts:
  "mset (results (pool_step client n p))
     + mset (map (run_task client) (in_flight (pool_step client n p)))
     + mset (map (run_task client) (queue (pool_step client n p)))
   = mset (results p) + mset (map (run_task client) (in_flight p))
     + mset (map (run_task client) (queue p))"
proof -
  have rm: "mset (map (run_task client) (take a (in_flight p) @ drop (Suc a) (in_flight p)))
              + {#run_task client (in_flight p ! a)#} = mset (map (run_task client) (in_flight p))"
    if "a < length (in_flight p)" for a
  proof -
    have "image_mset (run_task client)
            (mset (take a (in_flight p) @ drop (Suc a) (in_flight p)) + {#in_flight p ! a#})
            = image_mset (run_task client) (mset (in_flight p))"
      using mset_remove_nth [OF that] by simp
    then show ?thesis by simp
  qed
  show ?thesis
    using rm by (auto simp add: pool_step_def Let_def split: list.splits)
qed

lemma pool_run_workers: "workers (pool_run client schedule p) = workers p"
  by (induction schedule arbitrary: p) (simp_all add: pool_step_workers)

lemma pool_run_accounts:
  "mset (results (pool_run client schedule p))
     + mset (map (run_task client) (in_flight (pool_run client schedule p)))
     + mset (map (run_task client) (queue (pool_run client schedule p)))
   = mset (results p) + mset (map (run_task client) (in_flight p))
     + mset (map (run_task client) (queue p))"
proof (induction schedule arbitrary: p)
  case Nil
  show ?case by simp
next
  case (Cons n schedule)
  show ?case
    unfolding pool_run.simps
    using Cons.IH [of "pool_step client n p"] pool_step_accounts [of client n p]
    by (rule trans)
qed

lemma pool_run_progress:
  assumes "1 \<le> workers p"
  shows "2 * length (queue (pool_run client schedule p))
           + length (in_flight (pool_run client schedule p))
         = 2 * length (queue p) + length (in_flight p) - length schedule"
  using assms
proof (induction schedule arbitrary: p)
  case Nil
  then show ?case by simp
next
  case (Cons n schedule)
  show ?case
  proof (cases "drained p")
    case True
    then have "pool_step client n p = p" by (rule pool_step_drained)
    with Cons True show ?thesis by (simp add: drained_def)
  next
    case False
    from Cons.prems have w: "1 \<le> workers (pool_step client n p)"
      by (simp add: pool_step_workers)
    from pool_step_progress [OF Cons.prems False, of client n] Cons.IH [OF w]
    show ?thesis by simp
  qed
qed

lemma submit_run:
  assumes "1 \<le> n" and "2 * length tasks \<le> length schedule"
  shows "drained (pool_run client schedule (submit n tasks))"
    and "mset (results (pool_run client schedule (submit n tasks)))
           = mset (map (run_task client) tasks)"
proof -
  let ?p = "pool_run client schedule (submit n tasks)"
  have "2 * length (queue ?p) + length (in_flight ?p) = 0"
    using pool_run_progress [of "submit n tasks" client schedule] assms
    by (simp add: submit_def)
  then show d: "drained ?p" by (simp add: drained_def)
  from pool_run_accounts [of client schedule "submit n tasks"] d
  show "mset (results ?p) = mset (map (run_task client) tasks)"
    by (simp add: drained_def submit_def)
qed

lemma map_enumerate_snd: "map (\<lambda>(i, x). g x) (enumerate n xs) = map g xs"
  by (induction xs arbitrary: n) simp_all

lemma build_tasks_paths:
  "map (\<lambda>t. path (owner t)) (build_tasks tmpl prompt base) = map path (files tmpl)"
proof -
  have "map (\<lambda>t. path (owner t)) (build_tasks tmpl prompt base)
          = map (\<lambda>(i, f). path f) (enumerate 0 (files tmpl))"
    by (simp add: build_tasks_def split_def comp_def)
  then show ?thesis by (simp only: map_enumerate_snd)
qed

lemma length_build_tasks: "length (build_tasks tmpl prompt base) = length (files tmpl)"
  by (simp add: build_tasks_def)

lemma run_task_path: "map of_path (map (run_task client) tasks) = map (\<lambda>t. path (owner t)) tasks"
  by (simp add: run_task_def)

lemma drained_results:
  assumes "1 \<le> n" and "2 * length (files tmpl) \<le> length schedule"
  shows "drained (pool_run client schedule (submit n (build_tasks tmpl prompt base)))"
    and "mset (results (pool_run client schedule (submit n (build_tasks tmpl prompt base))))
           = mset (map (run_task client) (build_tasks tmpl prompt base))"
    and "length (results (pool_run client schedule (submit n (build_tasks tmpl prompt base))))
           = length (files tmpl)"
    and "mset (map of_path
                 (results (pool_run client schedule (submit n (build_tasks tmpl prompt base)))))
           = mset (map path (files tmpl))"
proof -
  let ?tasks = "build_tasks tmpl prompt base"
  let ?p = "pool_run client schedule (submit n ?tasks)"
  from assms have len: "2 * length ?tasks \<le> length schedule"
    by (simp add: length_build_tasks)
  show "drained ?p" using assms(1) len by (rule submit_run(1))
  show m: "mset (results ?p) = mset (map (run_task client) ?tasks)"
    using assms(1) len by (rule submit_run(2))
  from m have "size (mset (results ?p)) = size (mset (map (run_task client) ?tasks))"
    by simp
  then show "length (results ?p) = length (files tmpl)"
    by (simp add: length_build_tasks)
  have "mset (map of_path (results ?p)) = mset (map of_path (map (run_task client) ?tasks))"
    by (simp only: mset_map m)
  then show "mset (map of_path (results ?p)) = mset (map path (files tmpl))"
    by (simp only: run_task_path build_tasks_paths)
qed






section \<open>One result per file\<close>

text \<open>
  C1.  For a Template with K file specs and a pool of N workers, N at least 1 (so
  also for every N from 1 to K), under every schedule of the workers the pool has
  drained after 2K actions and has then produced exactly K results, one per file
  path.  Each result is the client's answer to its own task, a failure as much as a
  content, so no failure keeps another task from being attempted; and the results
  are the same collection for every number of workers and every schedule.
\<close>

theorem pool_one_result_per_file:
  assumes "1 \<le> n" and "2 * length (files tmpl) \<le> length schedule"
  shows "drained (pool_run client schedule (submit n (build_tasks tmpl prompt base)))
    \<and> length (results (pool_run client schedule (submit n (build_tasks tmpl prompt base))))
        = length (files tmpl)
    \<and> mset (map of_path
              (results (pool_run client schedule (submit n (build_tasks tmpl prompt base)))))
        = mset (map path (files tmpl))
    \<and> mset (results (pool_run client schedule (submit n (build_tasks tmpl prompt base))))
        = mset (map (run_task client) (build_tasks tmpl prompt base))
    \<and> (\<forall>n' schedule'. 1 \<le> n' \<and> 2 * length (files tmpl) \<le> length schedule' \<longrightarrow>
          mset (results (pool_run client schedule' (submit n' (build_tasks tmpl prompt base))))
          = mset (results (pool_run client schedule (submit n (build_tasks tmpl prompt base)))))"
  using drained_results [OF assms, of client prompt base] drained_results(2) [of _ tmpl _ client prompt base]
  by simp

theorem pool_one_result_per_file_witness:
  "drained (pool_run sample_generator [1, 0, 1, 0]
              (submit 2 (build_tasks sample_template ''p'' ''b'')))
   \<and> mset (map of_path (results (pool_run sample_generator [1, 0, 1, 0]
              (submit 2 (build_tasks sample_template ''p'' ''b'')))))
       = {#''main.go'', ''go.mod''#}"
proof -
  have one: "(1::nat) \<le> 2" by simp
  have enough: "2 * length (files sample_template) \<le> length [1::nat, 0, 1, 0]"
    by (simp add: sample_template_def)
  note w = pool_one_result_per_file [OF one enough, of sample_generator "''p''" "''b''"]
  from w have d: "drained (pool_run sample_generator [1, 0, 1, 0]
                    (submit 2 (build_tasks sample_template ''p'' ''b'')))"
    by (rule conjunct1)
  from w have m: "mset (map of_path (results (pool_run sample_generator [1, 0, 1, 0]
                    (submit 2 (build_tasks sample_template ''p'' ''b'')))))
                  = mset (map path (files sample_template))"
    by (elim conjE)
  have k: "mset (map path (files sample_template)) = {#''main.go'', ''go.mod''#}"
    by (simp add: sample_template_def)
  show ?thesis by (intro conjI) (rule d, rule trans [OF m k])
qed


section \<open>Facts about the Agent\<close>



lemma GenerateCode_rejected:
  "admit (state a) = Some e \<Longrightarrow> agent_GenerateCode a prompt schedule cancel = Some (a, Some e)"
  by (simp add: agent_GenerateCode_def)

lemma admit_spent:
  "s \<notin> {Idle, Started} \<Longrightarrow> admit s = Some AlreadyRunningError \<or> admit s = Some InvalidStateError"
  by (cases s) simp_all

lemma GenerateCode_admitted:
  assumes "state a = Started"
    and "agent_GenerateCode a prompt schedule cancel = Some (a', r)"
  shows "state a' \<in> {Completed, Failed, Cancelled} \<and> performed_run r"
  using assms
  by (auto simp: agent_GenerateCode_def Let_def split: option.splits if_splits)

lemma calls_spent:
  assumes "state a \<notin> {Idle, Started}" and "calls cs a = Some (a', rs)"
  shows "filter performed_run rs = []"
  using assms
proof (induction cs arbitrary: a rs)
  case Nil
  then show ?case by simp
next
  case (Cons c cs)
  show ?case
  proof (cases c)
    case Call_of_Start
    with Cons.prems have "Start a = a" by (simp add: Start_def)
    with Cons Call_of_Start show ?thesis by simp
  next
    case Call_of_Stop
    have "state (Stop a) \<notin> {Idle, Started}" by (simp add: Stop_def)
    with Cons Call_of_Stop show ?thesis by simp
  next
    case (Call_of_GenerateCode prompt schedule cancel)
    from admit_spent [OF Cons.prems(1)] obtain e where
      e: "admit (state a) = Some e" "\<not> performed_run (Some e)"
      by auto
    from GenerateCode_rejected [OF e(1)]
    have g: "agent_GenerateCode a prompt schedule cancel = Some (a, Some e)" .
    with Cons.prems(2) Call_of_GenerateCode obtain rs' where
      rs': "calls cs a = Some (a', rs')" "rs = Some e # rs'"
      by (auto split: option.splits)
    from Cons.IH [OF Cons.prems(1) rs'(1)] rs'(2) e(2) show ?thesis by simp
  qed
qed

lemma calls_one_run:
  assumes "calls cs a = Some (a', rs)"
  shows "length (filter performed_run rs) \<le> 1"
  using assms
proof (induction cs arbitrary: a rs)
  case Nil
  then show ?case by simp
next
  case (Cons c cs)
  show ?case
  proof (cases c)
    case Call_of_Start
    with Cons show ?thesis by simp
  next
    case Call_of_Stop
    with Cons show ?thesis by simp
  next
    case (Call_of_GenerateCode prompt schedule cancel)
    with Cons.prems obtain a1 r rs' where
      g: "agent_GenerateCode a prompt schedule cancel = Some (a1, r)"
      and rest: "calls cs a1 = Some (a', rs')" and rs: "rs = r # rs'"
      by (auto split: option.splits)
    show ?thesis
    proof (cases "state a = Started")
      case True
      from GenerateCode_admitted [OF True g] have "state a1 \<notin> {Idle, Started}" by auto
      from calls_spent [OF this rest] rs show ?thesis by simp
    next
      case False
      then obtain e where e: "admit (state a) = Some e" "\<not> performed_run (Some e)"
        by (cases "state a") auto
      from GenerateCode_rejected [OF e(1), of prompt schedule cancel] g
      have "a1 = a" "r = Some e" by simp_all
      with Cons.IH [of a rs'] rest rs e(2) show ?thesis by simp
    qed
  qed
qed


lemma sample_calls:
  "map_option snd
     (calls [Call_of_Start, Call_of_GenerateCode ''p'' [1, 0, 1, 0] None, Call_of_Start,
             Call_of_GenerateCode ''q'' [0, 0, 0, 0] None] sample_agent)
   = Some [Some (PartialGenerationError [(''go.mod'', ''rate limit'')]),
           Some AlreadyRunningError]"
  by code_simp




section \<open>The events of a run\<close>




section \<open>One run per Agent\<close>

text \<open>
  C7.  Once a Started Agent has taken a \<open>GenerateCode\<close> call, a second call on it is
  rejected with AlreadyRunningError and leaves the Agent as it is, also after further
  calls of \<open>Start\<close>, which change nothing; the same answer is given while the first
  call is still generating.  Over any sequence of calls on one Agent at most one
  \<open>GenerateCode\<close> call performs a run.
\<close>

theorem second_GenerateCode_rejected:
  "(state a = Started \<and> agent_GenerateCode a prompt1 schedule1 cancel1 = Some (a1, r1)
      \<longrightarrow> Start a1 = a1
        \<and> agent_GenerateCode a1 prompt2 schedule2 cancel2 = Some (a1, Some AlreadyRunningError))
   \<and> admit Generating = Some AlreadyRunningError
   \<and> (calls cs a = Some (a', rs) \<longrightarrow> length (filter performed_run rs) \<le> 1)"
proof (intro conjI impI)
  assume first: "state a = Started \<and> agent_GenerateCode a prompt1 schedule1 cancel1 = Some (a1, r1)"
  then have st: "state a1 \<in> {Completed, Failed, Cancelled}"
    using GenerateCode_admitted [of a prompt1 schedule1 cancel1 a1 r1] by simp
  then show "Start a1 = a1" by (auto simp: Start_def)
  from st have "admit (state a1) = Some AlreadyRunningError" by auto
  then show "agent_GenerateCode a1 prompt2 schedule2 cancel2 = Some (a1, Some AlreadyRunningError)"
    by (rule GenerateCode_rejected)
next
  show "admit Generating = Some AlreadyRunningError" by simp
next
  assume "calls cs a = Some (a', rs)"
  then show "length (filter performed_run rs) \<le> 1" by (rule calls_one_run)
qed

theorem second_GenerateCode_rejected_witness:
  "map_option snd
     (calls [Call_of_Start, Call_of_GenerateCode ''p'' [1, 0, 1, 0] None, Call_of_Start,
             Call_of_GenerateCode ''q'' [0, 0, 0, 0] None] sample_agent)
   = Some [Some (PartialGenerationError [(''go.mod'', ''rate limit'')]),
           Some AlreadyRunningError]
   \<and> length (filter performed_run
               [Some (PartialGenerationError [(''go.mod'', ''rate limit'')]),
                Some AlreadyRunningError]) \<le> 1"
proof -
  from sample_calls obtain a' where
    c: "calls [Call_of_Start, Call_of_GenerateCode ''p'' [1, 0, 1, 0] None, Call_of_Start,
               Call_of_GenerateCode ''q'' [0, 0, 0, 0] None] sample_agent
        = Some (a', [Some (PartialGenerationError [(''go.mod'', ''rate limit'')]),
                     Some AlreadyRunningError])"
    by auto
  from second_GenerateCode_rejected
    [where a = sample_agent and a' = a'
       and cs = "[Call_of_Start, Call_of_GenerateCode ''p'' [1, 0, 1, 0] None, Call_of_Start,
                  Call_of_GenerateCode ''q'' [0, 0, 0, 0] None]"
       and rs = "[Some (PartialGenerationError [(''go.mod'', ''rate limit'')]),
                  Some AlreadyRunningError]"] c
  have "length (filter performed_run
               [Some (PartialGenerationError [(''go.mod'', ''rate limit'')]),
                Some AlreadyRunningError]) \<le> 1"
    by blast
  with sample_calls show ?thesis by (intro conjI)
qed

section \<open>The worker count\<close>

text \<open>
  C5.  The worker count is checked before any task runs: a count is accepted exactly
  when it is from 1 to 8, and any other count is a ConfigError.  The command line's
  default, 4, is accepted.  With a package agents that makes this check in
  \<open>NewAgent\<close>, the maker command given a count out of range only logs the ConfigError
  and exits with 1: it neither starts the Agent nor calls \<open>GenerateCode\<close>.
\<close>

theorem worker_count_validated:
  "(validate_worker_count n = None \<longleftrightarrow> 1 \<le> n \<and> n \<le> 8)
   \<and> (\<not> (1 \<le> n \<and> n \<le> 8)
        \<longrightarrow> validate_worker_count n = Some (ConfigError ''invalid worker count''))
   \<and> (flag_worker_count cl = None
        \<longrightarrow> workerCount (maker_agent_args cl k) = 4
          \<and> validate_worker_count (workerCount (maker_agent_args cl k)) = None)
   \<and> (maker_openAPIKey cl env \<noteq> ''''
        \<and> \<not> (1 \<le> flag_value 4 (flag_worker_count cl) \<and> flag_value 4 (flag_worker_count cl) \<le> 8)
        \<longrightarrow> maker_main cl env (validating ag)
            = ([Log ''ConfigError: invalid worker count''], 1))"
  by (auto simp: validate_worker_count_def max_workers_def maker_agent_args_def flag_value_def
        maker_main_def validating_def Let_def split: option.splits)

theorem worker_count_validated_witness:
  "validate_worker_count 9 = Some (ConfigError ''invalid worker count'')
   \<and> validate_worker_count (workerCount (maker_agent_args sample_cmdline ''sk-test'')) = None
   \<and> maker_main (sample_cmdline\<lparr>flag_worker_count := Some 0\<rparr>) ''''
        (validating (sample_agents None))
       = ([Log ''ConfigError: invalid worker count''], 1)"
  using worker_count_validated [of 9 sample_cmdline "''sk-test''" "''''" "sample_agents None"]
    worker_count_validated
      [of 9 "sample_cmdline\<lparr>flag_worker_count := Some 0\<rparr>" "''sk-test''" "''''" "sample_agents None"]
    by (simp add: sample_cmdline_def maker_openAPIKey_def flag_value_def maker_agent_args_def)


end
